theory Spec2Isabelle
  imports Complex_Main "HOL-Library.Char_ord" "HOL-Library.List_Lexorder" "HOL-Library.Multiset"
begin

section \<open>The store-rating API: data model\<close>

text \<open>
  The three tables of \<^verbatim>\<open>database/schema.sql\<close>. A row is a record, a table the list of
  its rows in insertion order. Timestamps count the seconds of the database clock; a
  nullable column is an \<open>option\<close>.
\<close>

record user_row =
  u_id :: int
  u_name :: string
  u_email :: string
  u_password_hash :: string
  u_address :: string
  u_role :: string
  u_created_at :: nat
  u_updated_at :: nat

record store_row =
  s_id :: int
  s_name :: string
  s_email :: string
  s_address :: string
  s_owner_id :: "int option"
  s_created_at :: nat
  s_updated_at :: nat

record rating_row =
  r_id :: int
  r_user_id :: int
  r_store_id :: int
  r_rating :: int
  r_comment :: "string option"
  r_created_at :: nat
  r_updated_at :: nat

text \<open>
  What a request can make go wrong inside a handler's \<^verbatim>\<open>try\<close> block: a query rejected by
  PostgreSQL (or lost with the connection), and the JavaScript exceptions the handlers
  themselves can raise.
\<close>

datatype error =
    ConnectionFailure
  | ParameterMismatch
  | InvalidInteger
  | IntegerOutOfRange
  | NotNullViolation
  | ValueTooLong
  | CheckViolation
  | UniqueViolation
  | ForeignKeyViolation
  | NegativeLimit
  | NegativeOffset
  | AssignmentToConstant
  | UndefinedProperty
  | SecretMissing

text \<open>
  The world a handler runs in: the tables, the three \<^verbatim>\<open>SERIAL\<close> sequences, the clock,
  and \<open>faults\<close>, which says for each of the coming queries whether it is lost for a
  reason outside the program (an empty list: none is). \<open>failures\<close> counts the queries
  that have failed, \<open>console\<close> is what \<^verbatim>\<open>console.error\<close> has printed.

  PostgreSQL fixes no order among rows whose sort keys are equal, and the order it
  produces may differ from one query to the next. \<open>plans\<close> gives, for each of the coming
  queries, the ranks by which that query comes upon the rows it sorts (no ranks: in table
  order); \<open>plan\<close> is that of the query that is running.
\<close>

record database =
  users :: "user_row list"
  stores :: "store_row list"
  ratings :: "rating_row list"
  users_seq :: int
  stores_seq :: int
  ratings_seq :: int
  now :: nat
  faults :: "bool list"
  plans :: "nat list list"
  plan :: "nat list"
  failures :: nat
  console :: "string list"

text \<open>
  A text (a path parameter, a string of a request body) as PostgreSQL reads it when the
  query binds it to an integer: \<open>Numeric n\<close> when the text is the integer \<open>n\<close>,
  \<open>NonNumeric\<close> otherwise (the query then fails with "invalid input syntax"). A value
  of a JSON request body is undefined (absent), null, a boolean, a number or a string.
  A JavaScript number that is passed to a query is \<open>Some\<close> integer or, for
  \<^verbatim>\<open>Infinity\<close> and \<^verbatim>\<open>NaN\<close>, \<open>None\<close>.
\<close>

datatype pgtext = Numeric int | NonNumeric string

datatype jsval = JUndefined | JNull | JBool bool | JNumber rat | JString pgtext

datatype param = PInt int | PPath pgtext | PJs jsval | PText string | PNull | PNumber "int option"

subsection \<open>Asynchronous code with exceptions\<close>

text \<open>
  A computation inside \<^verbatim>\<open>try\<close> either throws or returns, and in both cases leaves a
  database behind: what was written before an exception stays written.
\<close>

type_synonym 'a io = "database \<Rightarrow> (error + 'a) \<times> database"

definition ret :: "'a \<Rightarrow> 'a io" where
  "ret x db = (Inr x, db)"

definition throw :: "error \<Rightarrow> 'a io" where
  "throw e db = (Inl e, db)"

definition andThen :: "'a io \<Rightarrow> ('a \<Rightarrow> 'b io) \<Rightarrow> 'b io" where
  "andThen m f db = (case m db of (Inl e, db') \<Rightarrow> (Inl e, db') | (Inr x, db') \<Rightarrow> f x db')"

text \<open>
  \<^verbatim>\<open>await pool.query(text, values)\<close>. \<open>placeholders\<close> is the number of \<^verbatim>\<open>$n\<close> the
  query text refers to, \<open>values\<close> the array passed with it, \<open>stmt\<close> what the statement
  does to the tables. The clock moves on by a second; the query is lost when the next
  fault says so, rejected when the values do not match the placeholders, and otherwise
  runs. A statement that fails leaves the tables as they were; of what it did, only
  the numbers it drew from a sequence stay drawn.
\<close>

type_synonym 'a statement = "database \<Rightarrow> (error + 'a) \<times> database"

definition lost :: "database \<Rightarrow> bool" where
  "lost db = (case faults db of [] \<Rightarrow> False | f # _ \<Rightarrow> f)"

definition tick :: "database \<Rightarrow> database" where
  "tick db = db\<lparr>now := now db + 1, faults := tl (faults db),
                plan := (case plans db of [] \<Rightarrow> [] | p # _ \<Rightarrow> p), plans := tl (plans db)\<rparr>"

definition failed :: "database \<Rightarrow> database" where
  "failed db = db\<lparr>failures := failures db + 1\<rparr>"

definition pool_query :: "nat \<Rightarrow> param list \<Rightarrow> 'a statement \<Rightarrow> 'a io" where
  "pool_query placeholders vals stmt db =
     (if lost db then (Inl ConnectionFailure, failed (tick db))
      else if length vals \<noteq> placeholders then (Inl ParameterMismatch, failed (tick db))
      else (case stmt (tick db) of
              (Inl e, db2) \<Rightarrow> (Inl e, failed db2)
            | (Inr x, db2) \<Rightarrow> (Inr x, db2)))"

text \<open>
  A statement that only reads; one that PostgreSQL refuses with an error; and the end of
  one that is carried out, with its result and the database it leaves.
\<close>

definition reading :: "(database \<Rightarrow> 'a) \<Rightarrow> 'a statement" where
  "reading f db = (Inr (f db), db)"

definition refuse :: "error \<Rightarrow> 'a statement" where
  "refuse e db = (Inl e, db)"

definition accept :: "'a \<Rightarrow> 'a statement" where
  "accept x db = (Inr x, db)"

text \<open>
  The id columns and the rating column are \<^verbatim>\<open>INTEGER\<close>, of 32 bits: a parameter compared
  with one or stored in one is read as a 32-bit integer, and a text that is an integer
  outside the range fails the query ("value out of range") as one that is no integer does.
\<close>

definition in_int4 :: "int \<Rightarrow> bool" where
  "in_int4 n = (- 2147483648 \<le> n \<and> n \<le> 2147483647)"

definition with_int :: "pgtext \<Rightarrow> (int \<Rightarrow> 'a statement) \<Rightarrow> 'a statement" where
  "with_int p stmt =
     (case p of
        Numeric n \<Rightarrow> if in_int4 n then stmt n else refuse IntegerOutOfRange
      | NonNumeric _ \<Rightarrow> refuse InvalidInteger)"

text \<open>
  A value of the request body bound to an integer: the driver sends undefined and null
  as NULL (\<open>None\<close>) and everything else as text, which PostgreSQL reads as an integer or
  rejects.
\<close>

definition js_int :: "jsval \<Rightarrow> error + int option" where
  "js_int v =
     (case v of
        JUndefined \<Rightarrow> Inr None
      | JNull \<Rightarrow> Inr None
      | JBool _ \<Rightarrow> Inl InvalidInteger
      | JNumber q \<Rightarrow> (if of_int \<lfloor>q\<rfloor> \<noteq> q then Inl InvalidInteger
                     else if in_int4 \<lfloor>q\<rfloor> then Inr (Some \<lfloor>q\<rfloor>) else Inl IntegerOutOfRange)
      | JString (Numeric n) \<Rightarrow> (if in_int4 n then Inr (Some n) else Inl IntegerOutOfRange)
      | JString (NonNumeric _) \<Rightarrow> Inl InvalidInteger)"

definition with_js_int :: "jsval \<Rightarrow> (int option \<Rightarrow> 'a statement) \<Rightarrow> 'a statement" where
  "with_js_int v stmt = (case js_int v of Inl e \<Rightarrow> refuse e | Inr n \<Rightarrow> stmt n)"

subsection \<open>Responses\<close>

record store_stats =
  average_rating :: rat
  total_ratings :: nat

record rating_echo =
  e_storeId :: pgtext
  e_userId :: int
  e_rating :: jsval
  e_comment :: "string option"

text \<open>A store with its derived aggregate, as the store queries select it.\<close>

record store_view =
  v_id :: int
  v_name :: string
  v_address :: string
  v_created_at :: nat
  v_average_rating :: rat
  v_total_ratings :: nat

record store_rating_view =
  sr_rating :: int
  sr_comment :: "string option"
  sr_created_at :: nat
  sr_user_name :: string

record user_public =
  p_id :: int
  p_name :: string
  p_email :: string
  p_address :: string
  p_role :: string
  p_created_at :: nat
  p_updated_at :: nat

record account =
  a_id :: int
  a_name :: string
  a_email :: string
  a_address :: string
  a_role :: string

text \<open>
  The numbers of the pagination object as JSON prints them: \<open>None\<close> is null, which
  stands for a number that is not finite (\<^verbatim>\<open>Math.ceil\<close> of a division by zero, say).
\<close>

record pagination =
  currentPage :: "int option"
  totalPages :: "int option"
  totalRows :: nat
  pageLimit :: "int option"

text \<open>
  The claims a token carries and the token itself. Signing and verifying belong to the
  \<^verbatim>\<open>jsonwebtoken\<close> library: a token is the claims together with the secret that signed them.
\<close>

record claims =
  c_userId :: int
  c_email :: string
  c_role :: string

datatype token = Signed claims string

record insights =
  i_totalRatings :: nat
  i_averageRating :: rat
  i_storesRated :: nat
  i_positiveRatings :: nat
  i_negativeRatings :: nat
  i_min :: int
  i_max :: int
  i_ratingStyle :: string

record trend =
  t_date :: nat
  t_avg_rating :: "rat option"
  t_daily_ratings :: nat

record favorite =
  f_id :: int
  f_name :: string
  f_address :: string
  f_rating :: int
  f_created_at :: nat

datatype body =
    Message string
  | ValidationErrors "string list"
  | RatingSaved string rating_echo store_stats
  | RatingDeleted string store_stats
  | StoreDetail store_view
  | StoreDetailFor store_view "int option"
  | StoreRatings "store_rating_view list"
  | StoreList "store_view list" pagination
  | UserList "user_public list" pagination
  | Authenticated string account token
  | UserInsights insights "trend list" "favorite list" "(int \<times> nat) list"

record response =
  status :: nat
  payload :: body

definition json :: "nat \<Rightarrow> body \<Rightarrow> response" where
  "json code b = \<lparr>status = code, payload = b\<rparr>"

definition internal_error :: response where
  "internal_error = json 500 (Message ''Internal server error'')"

text \<open>
  \<^verbatim>\<open>try { ... } catch (error) { console.error(label, error); res.status(500).json(...) }\<close>
\<close>

definition try_catch :: "string \<Rightarrow> response io \<Rightarrow> database \<Rightarrow> response \<times> database" where
  "try_catch label block db =
     (case block db of
        (Inr r, db') \<Rightarrow> (r, db')
      | (Inl e, db') \<Rightarrow> (internal_error, db'\<lparr>console := console db' @ [label]\<rparr>))"

section \<open>Rating routes\<close>

subsection \<open>The statements of \<^verbatim>\<open>routes/ratings.js\<close>\<close>

text \<open>\<^verbatim>\<open>SELECT id FROM stores WHERE id = $1\<close>\<close>

definition select_store_id :: "pgtext \<Rightarrow> int list statement" where
  "select_store_id storeId =
     with_int storeId (\<lambda>sid. reading (\<lambda>db. map s_id (filter (\<lambda>s. s_id s = sid) (stores db))))"

text \<open>The condition \<^verbatim>\<open>user_id = $u AND store_id = $s\<close> on a row of ratings.\<close>

definition rated :: "int \<Rightarrow> int \<Rightarrow> rating_row \<Rightarrow> bool" where
  "rated userId sid r = (r_user_id r = userId \<and> r_store_id r = sid)"

text \<open>\<^verbatim>\<open>SELECT id, rating, comment FROM ratings WHERE user_id = $1 AND store_id = $2\<close>\<close>

definition select_user_store_rating :: "int \<Rightarrow> pgtext \<Rightarrow> rating_row list statement" where
  "select_user_store_rating userId storeId =
     with_int storeId (\<lambda>sid. reading (\<lambda>db. filter (rated userId sid) (ratings db)))"

text \<open>
  \<^verbatim>\<open>UPDATE ratings SET rating = $1, comment = $2, updated_at = CURRENT_TIMESTAMP
  WHERE user_id = $3 AND store_id = $4\<close>, under the column's \<^verbatim>\<open>NOT NULL\<close> and
  \<^verbatim>\<open>CHECK (rating >= 1 AND rating <= 5)\<close>, which a statement that touches a row must meet.
\<close>

definition update_user_store_rating ::
  "jsval \<Rightarrow> string option \<Rightarrow> int \<Rightarrow> pgtext \<Rightarrow> unit statement" where
  "update_user_store_rating rating comment userId storeId =
     with_js_int rating (\<lambda>val. with_int storeId (\<lambda>sid db.
       case val of
         None \<Rightarrow> if (\<exists>r \<in> set (ratings db). rated userId sid r) then refuse NotNullViolation db
                 else accept () db
       | Some v \<Rightarrow>
           if (\<exists>r \<in> set (ratings db). rated userId sid r) \<and> \<not> (1 \<le> v \<and> v \<le> 5)
           then refuse CheckViolation db
           else accept () (db\<lparr>ratings :=
                  map (\<lambda>r. if rated userId sid r
                            then r\<lparr>r_rating := v, r_comment := comment, r_updated_at := now db\<rparr>
                            else r) (ratings db)\<rparr>)))"

text \<open>
  \<^verbatim>\<open>INSERT INTO ratings (user_id, store_id, rating, comment) VALUES ($1, $2, $3, $4)\<close>.
  A parameter that cannot be read fails the query before a row is formed. The id of the
  row comes from the sequence, which moves on whether or not the row is then accepted
  (\<open>db1\<close>); the row must meet \<^verbatim>\<open>NOT NULL\<close> and the CHECK on the rating, the primary key,
  \<^verbatim>\<open>UNIQUE(user_id, store_id)\<close> and both foreign keys.
\<close>

definition insert_rating :: "int \<Rightarrow> pgtext \<Rightarrow> jsval \<Rightarrow> string option \<Rightarrow> unit statement" where
  "insert_rating userId storeId rating comment =
     with_int storeId (\<lambda>sid. with_js_int rating (\<lambda>val db.
       let db1 = db\<lparr>ratings_seq := ratings_seq db + 1\<rparr>
       in case val of
         None \<Rightarrow> refuse NotNullViolation db1
       | Some v \<Rightarrow>
           let row = \<lparr>r_id = ratings_seq db, r_user_id = userId, r_store_id = sid, r_rating = v,
                      r_comment = comment, r_created_at = now db, r_updated_at = now db\<rparr>
           in if \<not> (1 \<le> v \<and> v \<le> 5) then refuse CheckViolation db1
              else if (\<exists>r \<in> set (ratings db). r_id r = r_id row) then refuse UniqueViolation db1
              else if (\<exists>r \<in> set (ratings db). rated userId sid r) then refuse UniqueViolation db1
              else if \<not> (\<exists>u \<in> set (users db). u_id u = userId) then refuse ForeignKeyViolation db1
              else if \<not> (\<exists>s \<in> set (stores db). s_id s = sid) then refuse ForeignKeyViolation db1
              else accept () (db1\<lparr>ratings := ratings db @ [row]\<rparr>)))"

text \<open>
  \<^verbatim>\<open>AVG\<close> over an integer column is PostgreSQL's \<^verbatim>\<open>numeric\<close> division of the sum by
  the count: a decimal fraction with a scale (a number of digits after the point)
  that the division chooses from its operands, the quotient being rounded to it, half
  away from zero. A \<^verbatim>\<open>numeric\<close> is held in digits of base 10000; \<open>nbase_head n\<close> is the
  weight (the number of such digits after the first) and the first digit of \<open>n\<close>. The
  scale is chosen so that the quotient has at least 16 significant decimal digits:
  \<open>16 - 4 * qweight\<close>, where \<open>qweight\<close> estimates the weight of the quotient, kept between
  0 and 1000. The driver hands the value over as its decimal text
  (\<^verbatim>\<open>'3.3333333333333333'\<close>); here it is the rational number that text denotes.
\<close>

function nbase_head :: "int \<Rightarrow> nat \<times> int" where
  "nbase_head n =
     (if n < 10000 then (0, n)
      else (case nbase_head (n div 10000) of (weight, digit) \<Rightarrow> (Suc weight, digit)))"
  by pat_completeness auto

termination nbase_head
  by (relation "measure nat") auto

declare nbase_head.simps [simp del]

definition select_div_scale :: "int \<Rightarrow> int \<Rightarrow> nat" where
  "select_div_scale a b =
     (case nbase_head \<bar>a\<bar> of (weight1, firstdigit1) \<Rightarrow>
      case nbase_head \<bar>b\<bar> of (weight2, firstdigit2) \<Rightarrow>
        let qweight = int weight1 - int weight2 - (if firstdigit1 \<le> firstdigit2 then 1 else 0);
            rscale = 16 - qweight * 4
        in nat (min (max rscale 0) 1000))"

definition round_numeric :: "rat \<Rightarrow> nat \<Rightarrow> rat" where
  "round_numeric x rscale =
     (if 0 \<le> x then of_int \<lfloor>x * 10 ^ rscale + 1 / 2\<rfloor> / 10 ^ rscale
      else - (of_int \<lfloor>- x * 10 ^ rscale + 1 / 2\<rfloor> / 10 ^ rscale))"

definition numeric_div :: "int \<Rightarrow> int \<Rightarrow> rat" where
  "numeric_div a b = round_numeric (of_int a / of_int b) (select_div_scale a b)"

text \<open>\<^verbatim>\<open>AVG\<close> is NULL on no value; \<^verbatim>\<open>COALESCE(x, 0)\<close> replaces the NULL.\<close>

definition avg :: "int list \<Rightarrow> rat option" where
  "avg xs = (if xs = [] then None else Some (numeric_div (sum_list xs) (int (length xs))))"

definition coalesce :: "'a option \<Rightarrow> 'a \<Rightarrow> 'a" where
  "coalesce x d = (case x of None \<Rightarrow> d | Some v \<Rightarrow> v)"

text \<open>
  \<^verbatim>\<open>SELECT COALESCE(AVG(rating), 0) as average_rating, COUNT(*) as total_ratings
  FROM ratings WHERE store_id = $1\<close>
\<close>

definition select_store_stats :: "pgtext \<Rightarrow> store_stats statement" where
  "select_store_stats storeId =
     with_int storeId (\<lambda>sid. reading (\<lambda>db.
       let rs = filter (\<lambda>r. r_store_id r = sid) (ratings db)
       in \<lparr>average_rating = coalesce (avg (map r_rating rs)) 0, total_ratings = length rs\<rparr>))"

text \<open>JavaScript's \<^verbatim>\<open>comment || null\<close> on an optional string: the empty string is falsy.\<close>

definition or_null :: "string option \<Rightarrow> string option" where
  "or_null c = (case c of None \<Rightarrow> None | Some s \<Rightarrow> if s = [] then None else Some s)"

definition text_param :: "string option \<Rightarrow> param" where
  "text_param c = (case c of None \<Rightarrow> PNull | Some s \<Rightarrow> PText s)"

subsection \<open>\<^verbatim>\<open>POST /api/ratings/:storeId\<close>\<close>

definition post_rating ::
  "pgtext \<Rightarrow> jsval \<Rightarrow> string option \<Rightarrow> int \<Rightarrow> database \<Rightarrow> response \<times> database" where
  "post_rating storeId rating comment userId =
     try_catch ''Rating submission error:''
       (andThen (pool_query 1 [PPath storeId] (select_store_id storeId)) (\<lambda>storeResult.
          if length storeResult = 0 then ret (json 404 (Message ''Store not found''))
          else
            andThen (pool_query 2 [PInt userId, PPath storeId]
                       (select_user_store_rating userId storeId)) (\<lambda>existingRating.
              if length existingRating > 0 then
                andThen (pool_query 4 [PJs rating, text_param (or_null comment), PInt userId, PPath storeId]
                           (update_user_store_rating rating (or_null comment) userId storeId))
                  (\<lambda>_.
                andThen (pool_query 1 [PPath storeId] (select_store_stats storeId))
                  (\<lambda>storeStats.
                ret (json 200 (RatingSaved ''Rating updated successfully''
                       \<lparr>e_storeId = storeId, e_userId = userId, e_rating = rating,
                        e_comment = comment\<rparr> storeStats))))
              else
                andThen (pool_query 4 [PInt userId, PPath storeId, PJs rating, text_param (or_null comment)]
                           (insert_rating userId storeId rating (or_null comment)))
                  (\<lambda>_.
                andThen (pool_query 1 [PPath storeId] (select_store_stats storeId))
                  (\<lambda>storeStats.
                ret (json 201 (RatingSaved ''Rating submitted successfully''
                       \<lparr>e_storeId = storeId, e_userId = userId, e_rating = rating,
                        e_comment = comment\<rparr> storeStats)))))))"

subsection \<open>\<^verbatim>\<open>DELETE /api/ratings/:ratingId\<close>\<close>

text \<open>\<^verbatim>\<open>SELECT id, store_id FROM ratings WHERE id = $1 AND user_id = $2\<close>\<close>

definition select_owned_rating :: "pgtext \<Rightarrow> int \<Rightarrow> rating_row list statement" where
  "select_owned_rating ratingId userId =
     with_int ratingId (\<lambda>rid. reading (\<lambda>db.
       filter (\<lambda>r. r_id r = rid \<and> r_user_id r = userId) (ratings db)))"

text \<open>\<^verbatim>\<open>DELETE FROM ratings WHERE id = $1\<close>\<close>

definition delete_rating_row :: "pgtext \<Rightarrow> unit statement" where
  "delete_rating_row ratingId =
     with_int ratingId (\<lambda>rid db.
       accept () (db\<lparr>ratings := filter (\<lambda>r. r_id r \<noteq> rid) (ratings db)\<rparr>))"

definition delete_rating :: "pgtext \<Rightarrow> int \<Rightarrow> database \<Rightarrow> response \<times> database" where
  "delete_rating ratingId userId =
     try_catch ''Rating deletion error:''
       (andThen (pool_query 2 [PPath ratingId, PInt userId] (select_owned_rating ratingId userId))
          (\<lambda>existingRating.
             case existingRating of
               [] \<Rightarrow> ret (json 404 (Message ''Rating not found or unauthorized''))
             | row # _ \<Rightarrow>
                 andThen (pool_query 1 [PPath ratingId] (delete_rating_row ratingId)) (\<lambda>_.
                 andThen (pool_query 1 [PInt (r_store_id row)]
                            (select_store_stats (Numeric (r_store_id row)))) (\<lambda>storeStats.
                 ret (json 200 (RatingDeleted ''Rating deleted successfully'' storeStats))))))"

subsection \<open>The rating validator\<close>

text \<open>
  Modelled from the spec: \<^verbatim>\<open>validateRating\<close> of \<^verbatim>\<open>middleware/validation.js\<close>, which is not
  among the sources. The spec: the rating is an integer from 1 to 5; on a violation the
  request is answered with a bad-request error listing the violations, and the database
  is not touched.
\<close>

definition validateRating :: "jsval \<Rightarrow> bool" where
  "validateRating v =
     (case v of JNumber q \<Rightarrow> of_int \<lfloor>q\<rfloor> = q \<and> 1 \<le> q \<and> q \<le> 5 | _ \<Rightarrow> False)"

text \<open>
  The route \<^verbatim>\<open>router.post('/:storeId', validateRating, handler)\<close>: the handler runs
  only when the validator passes the request on.
\<close>

definition post_rating_route ::
  "pgtext \<Rightarrow> jsval \<Rightarrow> string option \<Rightarrow> int \<Rightarrow> database \<Rightarrow> response \<times> database" where
  "post_rating_route storeId rating comment userId db =
     (if validateRating rating then post_rating storeId rating comment userId db
      else (json 400 (ValidationErrors [''Rating must be an integer between 1 and 5'']), db))"

section \<open>Store routes\<close>

text \<open>
  \<^verbatim>\<open>FROM stores s LEFT JOIN ratings r ON s.id = r.store_id\<close>, for one store: its
  ratings, or a single all-NULL row when it has none.
\<close>

definition left_join_ratings :: "store_row \<Rightarrow> rating_row list \<Rightarrow> rating_row option list" where
  "left_join_ratings s rs =
     (let matching = filter (\<lambda>r. r_store_id r = s_id s) rs
      in if matching = [] then [None] else map Some matching)"

text \<open>Aggregates skip NULLs: the values an aggregate over a column sees.\<close>

fun non_null :: "'a option list \<Rightarrow> 'a list" where
  "non_null [] = []"
| "non_null (None # xs) = non_null xs"
| "non_null (Some x # xs) = x # non_null xs"

text \<open>
  \<^verbatim>\<open>SELECT s.id, s.name, s.address, s.created_at,
  COALESCE(AVG(r.rating), 0) as average_rating, COUNT(r.id) as total_ratings ...
  GROUP BY s.id, s.name, s.address, s.created_at\<close>: one group for each store (the
  primary key is among the grouping columns).
\<close>

definition store_with_rating :: "rating_row list \<Rightarrow> store_row \<Rightarrow> store_view" where
  "store_with_rating rs s =
     (let joined = left_join_ratings s rs
      in \<lparr>v_id = s_id s, v_name = s_name s, v_address = s_address s,
          v_created_at = s_created_at s,
          v_average_rating = coalesce (avg (map r_rating (non_null joined))) 0,
          v_total_ratings = length (map r_id (non_null joined))\<rparr>)"

definition select_store_with_rating :: "pgtext \<Rightarrow> store_view list statement" where
  "select_store_with_rating ident =
     with_int ident (\<lambda>sid. reading (\<lambda>db.
       map (store_with_rating (ratings db)) (filter (\<lambda>s. s_id s = sid) (stores db))))"

subsection \<open>\<^verbatim>\<open>GET /api/stores/:id\<close>\<close>

definition get_store :: "pgtext \<Rightarrow> database \<Rightarrow> response \<times> database" where
  "get_store ident =
     try_catch ''Store details error:''
       (andThen (pool_query 1 [PPath ident] (select_store_with_rating ident)) (\<lambda>storeResult.
          case storeResult of
            [] \<Rightarrow> ret (json 404 (Message ''Store not found''))
          | store # _ \<Rightarrow> ret (json 200 (StoreDetail store))))"

subsection \<open>\<^verbatim>\<open>GET /api/stores/:id/authenticated\<close>\<close>

text \<open>
  \<^verbatim>\<open>SELECT rating FROM ratings WHERE user_id = $1 AND store_id = $2\<close>, and
  \<^verbatim>\<open>userRatingResult.rows[0]?.rating || null\<close> (0 is falsy).
\<close>

definition select_user_rating :: "int \<Rightarrow> pgtext \<Rightarrow> int list statement" where
  "select_user_rating userId ident =
     with_int ident (\<lambda>sid. reading (\<lambda>db. map r_rating (filter (rated userId sid) (ratings db))))"

definition first_rating :: "int list \<Rightarrow> int option" where
  "first_rating rows = (case rows of [] \<Rightarrow> None | r # _ \<Rightarrow> if r = 0 then None else Some r)"

definition get_store_authenticated :: "pgtext \<Rightarrow> int \<Rightarrow> database \<Rightarrow> response \<times> database" where
  "get_store_authenticated ident userId =
     try_catch ''Store details error:''
       (andThen (pool_query 1 [PPath ident] (select_store_with_rating ident)) (\<lambda>storeResult.
          case storeResult of
            [] \<Rightarrow> ret (json 404 (Message ''Store not found''))
          | store # _ \<Rightarrow>
              andThen (pool_query 2 [PInt userId, PPath ident] (select_user_rating userId ident))
                (\<lambda>userRatingResult.
              ret (json 200 (StoreDetailFor store (first_rating userRatingResult))))))"

text \<open>
  The view \<^verbatim>\<open>store_ratings_summary\<close> of the schema: every store with
  \<^verbatim>\<open>COUNT(r.id)\<close> and \<^verbatim>\<open>COALESCE(AVG(r.rating), 0)\<close> over the same left join.
\<close>

definition store_ratings_summary :: "database \<Rightarrow> (store_row \<times> store_stats) list" where
  "store_ratings_summary db =
     map (\<lambda>s. let joined = left_join_ratings s (ratings db)
               in (s, \<lparr>average_rating = coalesce (avg (map r_rating (non_null joined))) 0,
                       total_ratings = length (map r_id (non_null joined))\<rparr>))
         (stores db)"

subsection \<open>\<^verbatim>\<open>GET /api/stores/:id/ratings\<close>\<close>

text \<open>
  \<^verbatim>\<open>ORDER BY\<close> on one column. The query comes upon the rows in the order of the ranks
  its plan gives them (a row without a rank has rank 0) and sorts them by the key;
  rows with equal keys stay as the query came upon them, so that their order is the
  plan's and not the table's.
\<close>

definition arrange :: "nat list \<Rightarrow> 'a list \<Rightarrow> 'a list" where
  "arrange ranks rows =
     map snd (sort_key fst (zip (ranks @ replicate (length rows - length ranks) 0) rows))"

definition order_by :: "('a \<Rightarrow> 'k::linorder) \<Rightarrow> string \<Rightarrow> nat list \<Rightarrow> 'a list \<Rightarrow> 'a list" where
  "order_by key direction ranks rows =
     (if direction = ''DESC'' then rev (sort_key key (arrange ranks rows))
      else sort_key key (arrange ranks rows))"



section \<open>List endpoints\<close>

text \<open>
  The query string of a list request. \<open>None\<close> is a parameter that is absent, for which
  the destructuring default stands in. \<open>page\<close> and \<open>limit\<close> are texts; the requests
  described here are those where each is the decimal numeral of an integer, which is
  what the field holds. On such a text \<^verbatim>\<open>parseInt\<close> and the conversion that \<^verbatim>\<open>-\<close>,
  \<^verbatim>\<open>*\<close> and \<^verbatim>\<open>/\<close> make of a string read the same number.
\<close>

record list_request =
  q_search :: "string option"
  q_role :: "string option"
  q_sortBy :: "string option"
  q_sortOrder :: "string option"
  q_page :: "int option"
  q_limit :: "int option"

definition lower_char :: "char \<Rightarrow> char" where
  "lower_char c = (if CHR ''A'' \<le> c \<and> c \<le> CHR ''Z'' then char_of (of_char c + (32::nat)) else c)"

definition upper_char :: "char \<Rightarrow> char" where
  "upper_char c = (if CHR ''a'' \<le> c \<and> c \<le> CHR ''z'' then char_of (of_char c - (32::nat)) else c)"

definition toLowerCase :: "string \<Rightarrow> string" where
  "toLowerCase s = map lower_char s"

definition toUpperCase :: "string \<Rightarrow> string" where
  "toUpperCase s = map upper_char s"

text \<open>\<^verbatim>\<open>if (search) { ... params.push(`%${search}%`) }\<close>: an empty string is falsy.\<close>

definition search_pattern :: "string option \<Rightarrow> string option" where
  "search_pattern search =
     (case search of None \<Rightarrow> None | Some s \<Rightarrow> if s = [] then None else Some (''%'' @ s @ ''%''))"

definition truthy :: "string option \<Rightarrow> string option" where
  "truthy v = (case v of None \<Rightarrow> None | Some s \<Rightarrow> if s = [] then None else Some s)"

subsection \<open>The numbers of JavaScript\<close>

text \<open>
  \<^verbatim>\<open>page\<close> and \<^verbatim>\<open>limit\<close> become numbers where the handler computes with them
  (\<^verbatim>\<open>parseInt(limit)\<close>, \<^verbatim>\<open>page - 1\<close>, \<^verbatim>\<open>... * limit\<close>, \<^verbatim>\<open>total / limit\<close>), and a number is
  a double: an integer is itself up to \<open>2 ^ 53\<close> (\<^verbatim>\<open>Number.MAX_SAFE_INTEGER\<close> is
  \<open>2 ^ 53 - 1\<close>), beyond that the nearest integer with 53 significant bits (a tie goes
  to the even one), and \<^verbatim>\<open>Infinity\<close> from \<open>2 ^ 1024\<close> on. \<open>None\<close> is a number that is not
  finite.
\<close>

definition max_safe :: int where
  "max_safe = 9007199254740991"

function bit_length :: "int \<Rightarrow> nat" where
  "bit_length n = (if n \<le> 0 then 0 else Suc (bit_length (n div 2)))"
  by pat_completeness auto

termination bit_length
  by (relation "measure nat") auto

declare bit_length.simps [simp del]

definition to_double :: "int \<Rightarrow> int option" where
  "to_double n =
     (if \<bar>n\<bar> \<le> 9007199254740992 then Some n
      else let e = bit_length \<bar>n\<bar> - 53;
               q = \<bar>n\<bar> div 2 ^ e;
               r = \<bar>n\<bar> mod 2 ^ e;
               half = 2 ^ (e - 1);
               q' = (if half < r \<or> (r = half \<and> odd q) then q + 1 else q);
               m = q' * 2 ^ e
           in if 2 ^ 1024 \<le> m then None else Some (sgn n * m))"

text \<open>\<^verbatim>\<open>a - b\<close> and \<^verbatim>\<open>a * b\<close> on such numbers: the exact result, made a double again.\<close>

definition js_minus :: "int option \<Rightarrow> int \<Rightarrow> int option" where
  "js_minus a b = (case a of None \<Rightarrow> None | Some x \<Rightarrow> to_double (x - b))"

definition js_times :: "int option \<Rightarrow> int option \<Rightarrow> int option" where
  "js_times a b =
     (case a of None \<Rightarrow> None
      | Some x \<Rightarrow> (case b of None \<Rightarrow> None | Some y \<Rightarrow> to_double (x * y)))"

text \<open>
  \<^verbatim>\<open>Math.ceil(total / limit)\<close>, where \<open>total\<close> is the count of a table (below \<open>2 ^ 53\<close>).
  Division by zero gives \<^verbatim>\<open>Infinity\<close> or \<^verbatim>\<open>NaN\<close>, division by an infinite limit 0; for
  a limit up to \<open>2 ^ 53\<close> the double quotient lies on the same side of every integer as
  the exact one, so that its ceiling is the exact ceiling.
\<close>

definition math_ceil_div :: "nat \<Rightarrow> int option \<Rightarrow> int option" where
  "math_ceil_div n limit =
     (case limit of
        None \<Rightarrow> Some 0
      | Some l \<Rightarrow> if l = 0 then None else Some \<lceil>rat_of_nat n / rat_of_int l\<rceil>)"

text \<open>
  A number goes into a query and into JSON as the text \<^verbatim>\<open>toString\<close> gives it: the
  shortest decimal numeral that reads back as the same double (of two, the nearer one;
  of two equally near, the even one), the missing digits being zeros. \<open>js_print v\<close> is
  the integer that numeral denotes.
\<close>

function digits10 :: "int \<Rightarrow> nat" where
  "digits10 n = (if n < 10 then 1 else Suc (digits10 (n div 10)))"
  by pat_completeness auto

termination digits10
  by (relation "measure nat") auto

declare digits10.simps [simp del]

definition nearest :: "int \<Rightarrow> int \<Rightarrow> int option" where
  "nearest v u =
     (let lo = (v div u) * u;
          hi = lo + u;
          reads = (\<lambda>c. to_double c = Some v)
      in if reads lo \<and> reads hi
         then Some (if v - lo < hi - v then lo
                    else if hi - v < v - lo then hi
                    else if even (v div u) then lo else hi)
         else if reads lo then Some lo
         else if reads hi then Some hi
         else None)"

function shortest :: "int \<Rightarrow> nat \<Rightarrow> int" where
  "shortest v k =
     (if digits10 v \<le> k then v
      else (case nearest v (10 ^ (digits10 v - k)) of
              Some c \<Rightarrow> c
            | None \<Rightarrow> shortest v (Suc k)))"
  by pat_completeness auto

termination shortest
  by (relation "measure (\<lambda>(v, k). digits10 v - k)") auto

declare shortest.simps [simp del]

definition js_print :: "int \<Rightarrow> int" where
  "js_print v = (if \<bar>v\<bar> \<le> 9007199254740992 then v else sgn v * shortest \<bar>v\<bar> 1)"

text \<open>
  \<^verbatim>\<open>LIMIT $l OFFSET $o\<close> takes both parameters as \<^verbatim>\<open>bigint\<close>, of 64 bits. The text of
  a number from \<open>10 ^ 21\<close> on is in exponent notation, and that of a number that is not
  finite is a word: neither is an integer to PostgreSQL.
\<close>

definition pg_bigint :: "int option \<Rightarrow> error + int" where
  "pg_bigint num =
     (case num of
        None \<Rightarrow> Inl InvalidInteger
      | Some v \<Rightarrow>
          if 10 ^ 21 \<le> \<bar>v\<bar> then Inl InvalidInteger
          else if - (2 ^ 63) \<le> js_print v \<and> js_print v < 2 ^ 63 then Inr (js_print v)
          else Inl IntegerOutOfRange)"

text \<open>PostgreSQL rejects a negative limit or offset.\<close>

definition limit_offset :: "int \<Rightarrow> int \<Rightarrow> 'a list \<Rightarrow> error + 'a list" where
  "limit_offset l off rows =
     (if l < 0 then Inl NegativeLimit
      else if off < 0 then Inl NegativeOffset
      else Inr (take (nat l) (drop (nat off) rows)))"

definition paged :: "int option \<Rightarrow> int option \<Rightarrow> (database \<Rightarrow> 'a list) \<Rightarrow> 'a list statement" where
  "paged l off rows db =
     (case pg_bigint l of
        Inl e \<Rightarrow> refuse e db
      | Inr len \<Rightarrow>
          (case pg_bigint off of
             Inl e \<Rightarrow> refuse e db
           | Inr start \<Rightarrow>
               (case limit_offset len start (rows db) of
                  Inl e \<Rightarrow> refuse e db
                | Inr page \<Rightarrow> accept page db)))"

subsection \<open>\<^verbatim>\<open>GET /api/stores\<close>\<close>

text \<open>
  \<^verbatim>\<open>WHERE 1=1 AND (s.name ILIKE $1 OR s.address ILIKE $1)\<close>. How \<^verbatim>\<open>ILIKE\<close> matches a
  pattern against a text is PostgreSQL's; the handlers take it as \<open>ilike pattern text\<close>.
\<close>

definition store_matches :: "(string \<Rightarrow> string \<Rightarrow> bool) \<Rightarrow> string option \<Rightarrow> store_row \<Rightarrow> bool" where
  "store_matches ilike pat s =
     (case pat of None \<Rightarrow> True | Some p \<Rightarrow> ilike p (s_name s) \<or> ilike p (s_address s))"

text \<open>\<^verbatim>\<open>SELECT COUNT(*) FROM stores s ${whereClause}\<close>\<close>

definition count_stores :: "(string \<Rightarrow> string \<Rightarrow> bool) \<Rightarrow> string option \<Rightarrow> nat statement" where
  "count_stores ilike pat = reading (\<lambda>db. length (filter (store_matches ilike pat) (stores db)))"

text \<open>
  \<^verbatim>\<open>ORDER BY s.${sortBy} ${sortOrder.toUpperCase()}\<close> over the allow-listed columns.
  Text is compared by the collation of the database, which is PostgreSQL's and the
  installation's: the handlers take it as \<open>collate\<close>, the key by which a text sorts.
\<close>

definition order_stores ::
  "(string \<Rightarrow> 'c::linorder) \<Rightarrow> string \<Rightarrow> string \<Rightarrow> nat list \<Rightarrow> store_view list \<Rightarrow> store_view list" where
  "order_stores collate sortBy direction ranks rows =
     (if sortBy = ''name'' then order_by (\<lambda>v. collate (v_name v)) direction ranks rows
      else if sortBy = ''address'' then order_by (\<lambda>v. collate (v_address v)) direction ranks rows
      else order_by v_created_at direction ranks rows)"

text \<open>The rows of the stores query before \<^verbatim>\<open>LIMIT\<close> and \<^verbatim>\<open>OFFSET\<close> cut a page out.\<close>

definition select_stores ::
  "(string \<Rightarrow> string \<Rightarrow> bool) \<Rightarrow> string option \<Rightarrow> database \<Rightarrow> store_view list" where
  "select_stores ilike pat db =
     map (store_with_rating (ratings db)) (filter (store_matches ilike pat) (stores db))"

definition matching_stores ::
  "(string \<Rightarrow> 'c::linorder) \<Rightarrow> (string \<Rightarrow> string \<Rightarrow> bool) \<Rightarrow> string option \<Rightarrow> string \<Rightarrow> string \<Rightarrow>
   database \<Rightarrow> store_view list" where
  "matching_stores collate ilike pat sortBy direction db =
     order_stores collate sortBy direction (plan db) (select_stores ilike pat db)"

text \<open>
  \<^verbatim>\<open>sortBy\<close> and \<^verbatim>\<open>sortOrder\<close> are bound by a \<^verbatim>\<open>const\<close> destructuring, so the fallback
  \<^verbatim>\<open>if (!allowedSortFields.includes(sortBy)) sortBy = 'name'\<close> raises a TypeError when
  it runs the assignment.
\<close>

definition list_stores ::
  "(string \<Rightarrow> 'c::linorder) \<Rightarrow> (string \<Rightarrow> string \<Rightarrow> bool) \<Rightarrow> list_request \<Rightarrow> database \<Rightarrow>
   response \<times> database" where
  "list_stores collate ilike req =
     try_catch ''Stores fetch error:''
       (let sortBy = coalesce (q_sortBy req) ''name'';
            sortOrder = coalesce (q_sortOrder req) ''asc'';
            page = to_double (coalesce (q_page req) 1);
            limit = to_double (coalesce (q_limit req) 20);
            pat = search_pattern (q_search req);
            params = (case pat of None \<Rightarrow> [] | Some p \<Rightarrow> [PText p]);
            paramCount = length params
        in if sortBy \<notin> set [''name'', ''address'', ''created_at''] then throw AssignmentToConstant
           else if toLowerCase sortOrder \<notin> set [''asc'', ''desc''] then throw AssignmentToConstant
           else
             andThen (pool_query paramCount params (count_stores ilike pat)) (\<lambda>totalStores.
               let offset = js_times (js_minus page 1) limit;
                   totalPages = math_ceil_div totalStores limit
               in andThen (pool_query (paramCount + 2) (params @ [PNumber limit, PNumber offset])
                             (paged limit offset
                                (matching_stores collate ilike pat sortBy (toUpperCase sortOrder))))
                    (\<lambda>storesResult.
                  ret (json 200 (StoreList storesResult
                         \<lparr>currentPage = map_option js_print page, totalPages = totalPages,
                          totalRows = totalStores, pageLimit = map_option js_print limit\<rparr>)))))"

subsection \<open>\<^verbatim>\<open>GET /api/admin/users\<close>\<close>

text \<open>
  \<^verbatim>\<open>WHERE 1=1 AND (name ILIKE $1 OR email ILIKE $1 OR address ILIKE $1) AND role = $2\<close>,
  each part present when its parameter is.
\<close>

definition user_matches ::
  "(string \<Rightarrow> string \<Rightarrow> bool) \<Rightarrow> string option \<Rightarrow> string option \<Rightarrow> user_row \<Rightarrow> bool" where
  "user_matches ilike pat role u =
     ((case pat of None \<Rightarrow> True
       | Some p \<Rightarrow> ilike p (u_name u) \<or> ilike p (u_email u) \<or> ilike p (u_address u)) \<and>
      (case role of None \<Rightarrow> True | Some r \<Rightarrow> u_role u = r))"

definition count_users ::
  "(string \<Rightarrow> string \<Rightarrow> bool) \<Rightarrow> string option \<Rightarrow> string option \<Rightarrow> nat statement" where
  "count_users ilike pat role =
     reading (\<lambda>db. length (filter (user_matches ilike pat role) (users db)))"

definition public_user :: "user_row \<Rightarrow> user_public" where
  "public_user u =
     \<lparr>p_id = u_id u, p_name = u_name u, p_email = u_email u, p_address = u_address u,
      p_role = u_role u, p_created_at = u_created_at u, p_updated_at = u_updated_at u\<rparr>"

definition order_users ::
  "(string \<Rightarrow> 'c::linorder) \<Rightarrow> string \<Rightarrow> string \<Rightarrow> nat list \<Rightarrow> user_public list \<Rightarrow> user_public list" where
  "order_users collate sortBy direction ranks rows =
     (if sortBy = ''name'' then order_by (\<lambda>u. collate (p_name u)) direction ranks rows
      else if sortBy = ''email'' then order_by (\<lambda>u. collate (p_email u)) direction ranks rows
      else if sortBy = ''address'' then order_by (\<lambda>u. collate (p_address u)) direction ranks rows
      else if sortBy = ''role'' then order_by (\<lambda>u. collate (p_role u)) direction ranks rows
      else order_by p_created_at direction ranks rows)"

definition select_users ::
  "(string \<Rightarrow> string \<Rightarrow> bool) \<Rightarrow> string option \<Rightarrow> string option \<Rightarrow> database \<Rightarrow> user_public list" where
  "select_users ilike pat role db =
     map public_user (filter (user_matches ilike pat role) (users db))"

definition matching_users ::
  "(string \<Rightarrow> 'c::linorder) \<Rightarrow> (string \<Rightarrow> string \<Rightarrow> bool) \<Rightarrow> string option \<Rightarrow> string option \<Rightarrow>
   string \<Rightarrow> string \<Rightarrow> database \<Rightarrow> user_public list" where
  "matching_users collate ilike pat role sortBy direction db =
     order_users collate sortBy direction (plan db) (select_users ilike pat role db)"

definition list_users ::
  "(string \<Rightarrow> 'c::linorder) \<Rightarrow> (string \<Rightarrow> string \<Rightarrow> bool) \<Rightarrow> list_request \<Rightarrow> database \<Rightarrow>
   response \<times> database" where
  "list_users collate ilike req =
     try_catch ''Users fetch error:''
       (let sortBy = coalesce (q_sortBy req) ''name'';
            sortOrder = coalesce (q_sortOrder req) ''asc'';
            page = to_double (coalesce (q_page req) 1);
            limit = to_double (coalesce (q_limit req) 20);
            pat = search_pattern (q_search req);
            role = truthy (q_role req);
            params = (case pat of None \<Rightarrow> [] | Some p \<Rightarrow> [PText p]) @
                     (case role of None \<Rightarrow> [] | Some r \<Rightarrow> [PText r]);
            paramCount = length params
        in if sortBy \<notin> set [''name'', ''email'', ''address'', ''role'', ''created_at'']
             then throw AssignmentToConstant
           else if toLowerCase sortOrder \<notin> set [''asc'', ''desc''] then throw AssignmentToConstant
           else
             andThen (pool_query paramCount params (count_users ilike pat role)) (\<lambda>totalUsers.
               let offset = js_times (js_minus page 1) limit;
                   totalPages = math_ceil_div totalUsers limit
               in andThen (pool_query (paramCount + 2) (params @ [PNumber limit, PNumber offset])
                             (paged limit offset
                                (matching_users collate ilike pat role sortBy (toUpperCase sortOrder))))
                    (\<lambda>usersResult.
                  ret (json 200 (UserList usersResult
                         \<lparr>currentPage = map_option js_print page, totalPages = totalPages,
                          totalRows = totalUsers, pageLimit = map_option js_print limit\<rparr>)))))"

section \<open>Authentication routes\<close>








text \<open>
  The password hashing of \<^verbatim>\<open>bcryptjs\<close> is the library's: \<open>hash password rounds\<close> and
  \<open>compare password hash\<close> are parameters of the two handlers.
\<close>

subsection \<open>\<^verbatim>\<open>POST /api/auth/register\<close>\<close>


subsection \<open>\<^verbatim>\<open>POST /api/auth/login\<close>\<close>


section \<open>\<^verbatim>\<open>GET /api/ratings/user/insights\<close>\<close>

record rating_summary =
  rs_total_ratings :: nat
  rs_average_rating :: "rat option"
  rs_stores_rated :: nat
  rs_positive_ratings :: nat
  rs_negative_ratings :: nat
  rs_min_rating :: "int option"
  rs_max_rating :: "int option"

definition min_opt :: "int list \<Rightarrow> int option" where
  "min_opt xs = (case xs of [] \<Rightarrow> None | x # ys \<Rightarrow> Some (fold min ys x))"

definition max_opt :: "int list \<Rightarrow> int option" where
  "max_opt xs = (case xs of [] \<Rightarrow> None | x # ys \<Rightarrow> Some (fold max ys x))"

text \<open>
  \<^verbatim>\<open>SELECT COUNT(*), AVG(rating), COUNT(DISTINCT store_id),
  COUNT(CASE WHEN rating >= 4 THEN 1 END), COUNT(CASE WHEN rating <= 2 THEN 1 END),
  MIN(rating), MAX(rating) FROM ratings WHERE user_id = $1\<close>
\<close>

definition select_rating_summary :: "int \<Rightarrow> rating_summary list statement" where
  "select_rating_summary userId =
     reading (\<lambda>db.
       let rs = map r_rating (filter (\<lambda>r. r_user_id r = userId) (ratings db))
       in [\<lparr>rs_total_ratings = length rs,
            rs_average_rating = avg rs,
            rs_stores_rated =
              length (remdups (map r_store_id (filter (\<lambda>r. r_user_id r = userId) (ratings db)))),
            rs_positive_ratings = length (filter (\<lambda>v. v \<ge> 4) rs),
            rs_negative_ratings = length (filter (\<lambda>v. v \<le> 2) rs),
            rs_min_rating = min_opt rs,
            rs_max_rating = max_opt rs\<rparr>])"

text \<open>
  Timestamps count seconds; \<^verbatim>\<open>DATE(created_at)\<close> is the day a timestamp falls in.

  \<^verbatim>\<open>SELECT DATE(created_at) as date, AVG(rating) as avg_rating, COUNT(*) as daily_ratings
  FROM ratings WHERE user_id = $1 AND created_at >= NOW() - INTERVAL '30 days'
  GROUP BY DATE(created_at) ORDER BY date\<close>
\<close>

definition date_of :: "nat \<Rightarrow> nat" where
  "date_of t = t div 86400"

definition select_trends :: "int \<Rightarrow> trend list statement" where
  "select_trends userId =
     reading (\<lambda>db.
       let rs = filter (\<lambda>r. r_user_id r = userId \<and>
                             int (r_created_at r) \<ge> int (now db) - 30 * 86400) (ratings db)
       in map (\<lambda>d. let day = filter (\<lambda>r. date_of (r_created_at r) = d) rs
                    in \<lparr>t_date = d, t_avg_rating = avg (map r_rating day),
                        t_daily_ratings = length day\<rparr>)
              (sort (remdups (map (\<lambda>r. date_of (r_created_at r)) rs))))"

text \<open>
  \<^verbatim>\<open>SELECT s.id, s.name, s.address, r.rating, r.created_at
  FROM ratings r JOIN stores s ON r.store_id = s.id
  WHERE r.user_id = $1 AND r.rating >= 4
  ORDER BY r.rating DESC, r.created_at DESC LIMIT 5\<close>
\<close>

definition select_favorites :: "int \<Rightarrow> favorite list statement" where
  "select_favorites userId =
     reading (\<lambda>db.
       take 5 (order_by f_rating ''DESC'' [] (order_by f_created_at ''ASC'' (plan db)
         (concat (map (\<lambda>r. map (\<lambda>s. \<lparr>f_id = s_id s, f_name = s_name s, f_address = s_address s,
                                      f_rating = r_rating r, f_created_at = r_created_at r\<rparr>)
                             (filter (\<lambda>s. s_id s = r_store_id r) (stores db)))
                      (filter (\<lambda>r. r_user_id r = userId \<and> r_rating r \<ge> 4) (ratings db)))))))"

text \<open>
  \<^verbatim>\<open>SELECT rating, COUNT(*) as count FROM ratings WHERE user_id = $1
  GROUP BY rating ORDER BY rating\<close>
\<close>

definition select_rating_distribution :: "int \<Rightarrow> (int \<times> nat) list statement" where
  "select_rating_distribution userId =
     reading (\<lambda>db.
       let rs = map r_rating (filter (\<lambda>r. r_user_id r = userId) (ratings db))
       in map (\<lambda>v. (v, length (filter (\<lambda>x. x = v) rs))) (sort (remdups rs)))"

definition rating_style :: "rating_summary \<Rightarrow> string" where
  "rating_style stats =
     (if rs_total_ratings stats > 0
      then (if rat_of_nat (rs_positive_ratings stats) / rat_of_nat (rs_total_ratings stats) \<ge> 7 / 10
            then ''generous''
            else if rat_of_nat (rs_negative_ratings stats) / rat_of_nat (rs_total_ratings stats)
                      \<ge> 3 / 10
            then ''critical'' else ''balanced'')
      else ''new'')"

text \<open>
  The handler. Its fourth call is \<^verbatim>\<open>pool.query(text)\<close> with no array of values, for a
  text that refers to \<^verbatim>\<open>$1\<close>.
\<close>

definition user_insights :: "int \<Rightarrow> database \<Rightarrow> response \<times> database" where
  "user_insights userId =
     try_catch ''User insights error:''
       (andThen (pool_query 1 [PInt userId] (select_rating_summary userId)) (\<lambda>statsResult.
        andThen (pool_query 1 [PInt userId] (select_trends userId)) (\<lambda>trendsResult.
        andThen (pool_query 1 [PInt userId] (select_favorites userId)) (\<lambda>favoriteStores.
        andThen (pool_query 1 [] (select_rating_distribution userId)) (\<lambda>ratingDistribution.
          case statsResult of
            [] \<Rightarrow> throw UndefinedProperty
          | stats # _ \<Rightarrow>
              ret (json 200 (UserInsights
                \<lparr>i_totalRatings = rs_total_ratings stats,
                 i_averageRating = coalesce (rs_average_rating stats) 0,
                 i_storesRated = rs_stores_rated stats,
                 i_positiveRatings = rs_positive_ratings stats,
                 i_negativeRatings = rs_negative_ratings stats,
                 i_min = coalesce (rs_min_rating stats) 0,
                 i_max = coalesce (rs_max_rating stats) 0,
                 i_ratingStyle = rating_style stats\<rparr>
                trendsResult favoriteStores ratingDistribution)))))))"

section \<open>The ratings router\<close>

text \<open>
  The routes of \<^verbatim>\<open>routes/ratings.js\<close> in the order they are registered. A pattern is a
  list of segments, each a literal or a named parameter; a request path is the list of
  its non-empty segments below \<^verbatim>\<open>/api/ratings\<close>.
\<close>

datatype http_method = GET | POST | PUT | DELETE

datatype segment = Lit string | Par string

datatype handler =
    SubmitRating
  | UpdateRating
  | DeleteRatingById
  | GetUserInsights
  | GetUserRecommendations
  | GetUserRatings
  | GetUserStoreRating
  | GetUserStats
  | DeleteRatingByStore

definition ratings_routes :: "(http_method \<times> segment list \<times> handler) list" where
  "ratings_routes =
     [(POST, [Par ''storeId''], SubmitRating),
      (PUT, [Par ''ratingId''], UpdateRating),
      (DELETE, [Par ''ratingId''], DeleteRatingById),
      (GET, [Lit ''user'', Lit ''insights''], GetUserInsights),
      (GET, [Lit ''user'', Lit ''recommendations''], GetUserRecommendations),
      (GET, [Lit ''user''], GetUserRatings),
      (GET, [Lit ''user'', Par ''storeId''], GetUserStoreRating),
      (GET, [Lit ''user'', Lit ''stats''], GetUserStats),
      (DELETE, [Par ''storeId''], DeleteRatingByStore)]"

text \<open>
  Matching a path against a pattern gives the parameters it binds. A parameter takes one
  non-empty segment; a literal is compared without regard to case, as Express does
  by default.
\<close>

fun match_path :: "segment list \<Rightarrow> string list \<Rightarrow> (string \<times> string) list option" where
  "match_path [] [] = Some []"
| "match_path (Lit l # ps) (x # xs) =
     (if toLowerCase l = toLowerCase x then match_path ps xs else None)"
| "match_path (Par n # ps) (x # xs) =
     (if x = [] then None
      else (case match_path ps xs of None \<Rightarrow> None | Some bs \<Rightarrow> Some ((n, x) # bs)))"
| "match_path _ _ = None"

text \<open>
  Express tries the routes in order and hands the request to the first whose method and
  pattern match. It goes on to a later route only when a handler calls \<^verbatim>\<open>next()\<close>; the
  handlers of this file take \<^verbatim>\<open>(req, res)\<close> and never do.
\<close>

definition calls_next :: "handler \<Rightarrow> bool" where
  "calls_next h = False"

fun dispatch ::
  "(http_method \<times> segment list \<times> handler) list \<Rightarrow> http_method \<Rightarrow> string list \<Rightarrow>
   (handler \<times> (string \<times> string) list) option" where
  "dispatch [] m path = None"
| "dispatch ((m', pat, h) # routes) m path =
     (if m' = m then
        (case match_path pat path of
           None \<Rightarrow> dispatch routes m path
         | Some bs \<Rightarrow> if calls_next h then dispatch routes m path else Some (h, bs))
      else dispatch routes m path)"

section \<open>Reading a response\<close>

text \<open>The \<^verbatim>\<open>stores\<close> and \<^verbatim>\<open>users\<close> arrays of a list response (empty for any other body).\<close>

definition listed_stores :: "response \<Rightarrow> store_view list" where
  "listed_stores r = (case payload r of StoreList rows _ \<Rightarrow> rows | _ \<Rightarrow> [])"


section \<open>Sorted results\<close>






section \<open>A small database\<close>

text \<open>
  The example of the specification: an administrator, the store owner Sarah Wilson, the
  user John Doe, the store City Market and a second store, and no rating yet.
\<close>

definition demo_users :: "user_row list" where
  "demo_users =
     [\<lparr>u_id = 1, u_name = ''System Administrator'', u_email = ''admin@system.com'',
       u_password_hash = ''$2a$10$admin'', u_address = ''123 Admin Street'',
       u_role = ''system_admin'', u_created_at = 100, u_updated_at = 100\<rparr>,
      \<lparr>u_id = 2, u_name = ''Sarah Wilson - Another Store Owner'', u_email = ''sarah@example.com'',
       u_password_hash = ''$2a$10$sarah'', u_address = ''5 Market Road'',
       u_role = ''store_owner'', u_created_at = 200, u_updated_at = 200\<rparr>,
      \<lparr>u_id = 3, u_name = ''John Doe - Normal User Example'', u_email = ''john@example.com'',
       u_password_hash = ''$2a$10$john'', u_address = ''7 Hill Lane'',
       u_role = ''normal_user'', u_created_at = 300, u_updated_at = 300\<rparr>]"

definition demo_stores :: "store_row list" where
  "demo_stores =
     [\<lparr>s_id = 1, s_name = ''City Market'', s_email = ''city@market.com'',
       s_address = ''5 Market Road'', s_owner_id = Some 2,
       s_created_at = 400, s_updated_at = 400\<rparr>,
      \<lparr>s_id = 2, s_name = ''Corner Bakery'', s_email = ''corner@bakery.com'',
       s_address = ''9 Mill Street'', s_owner_id = None,
       s_created_at = 500, s_updated_at = 500\<rparr>]"

definition demo_db :: database where
  "demo_db =
     \<lparr>users = demo_users, stores = demo_stores, ratings = [],
      users_seq = 4, stores_seq = 3, ratings_seq = 1, now = 1000,
      faults = [], plans = [], plan = [], failures = 0, console = []\<rparr>"

text \<open>The same database with three ratings of City Market and one of the bakery.\<close>

definition demo_ratings :: "rating_row list" where
  "demo_ratings =
     [\<lparr>r_id = 1, r_user_id = 3, r_store_id = 1, r_rating = 5, r_comment = Some ''Great'',
       r_created_at = 600, r_updated_at = 600\<rparr>,
      \<lparr>r_id = 2, r_user_id = 2, r_store_id = 1, r_rating = 2, r_comment = None,
       r_created_at = 700, r_updated_at = 700\<rparr>,
      \<lparr>r_id = 3, r_user_id = 1, r_store_id = 1, r_rating = 3, r_comment = None,
       r_created_at = 800, r_updated_at = 800\<rparr>,
      \<lparr>r_id = 4, r_user_id = 3, r_store_id = 2, r_rating = 4, r_comment = None,
       r_created_at = 900, r_updated_at = 900\<rparr>]"

definition rated_db :: database where
  "rated_db = demo_db\<lparr>ratings := demo_ratings, ratings_seq := 5\<rparr>"

text \<open>A list request for pages of two rows, everything else left to the defaults.\<close>

definition demo_request :: list_request where
  "demo_request =
     \<lparr>q_search = None, q_role = None, q_sortBy = None, q_sortOrder = None,
      q_page = None, q_limit = Some 2\<rparr>"


text \<open>The rated database at a moment when the next query is lost.\<close>

definition broken_db :: database where
  "broken_db = rated_db\<lparr>faults := [True]\<rparr>"

section \<open>Running the handlers\<close>

lemma andThen_Inr:
  "andThen m f db = (Inr y, db'') \<longleftrightarrow> (\<exists>x db'. m db = (Inr x, db') \<and> f x db' = (Inr y, db''))"
  by (auto simp: andThen_def split: prod.splits sum.splits)

lemma pool_query_Inr:
  "pool_query k vs stmt db = (Inr x, db') \<longleftrightarrow>
     \<not> lost db \<and> length vs = k \<and> stmt (tick db) = (Inr x, db')"
  by (auto simp: pool_query_def split: prod.splits sum.splits)

lemma try_catch_ok:
  "try_catch l b db = (r, db') \<Longrightarrow> status r \<noteq> 500 \<Longrightarrow> b db = (Inr r, db')"
  by (auto simp: try_catch_def internal_error_def json_def split: prod.splits sum.splits)

lemma with_int_Inr:
  "with_int p stmt db = (Inr x, db') \<longleftrightarrow>
     (\<exists>n. p = Numeric n \<and> in_int4 n \<and> stmt n db = (Inr x, db'))"
  by (cases p) (auto simp: with_int_def refuse_def)

lemma with_js_int_Inr:
  "with_js_int v stmt db = (Inr x, db') \<longleftrightarrow>
     (\<exists>n. js_int v = Inr n \<and> stmt n db = (Inr x, db'))"
  by (cases "js_int v") (auto simp: with_js_int_def refuse_def)

lemma reading_Inr: "reading f db = (Inr x, db') \<longleftrightarrow> x = f db \<and> db' = db"
  by (auto simp: reading_def)

lemma refuse_Inr [simp]: "refuse e db \<noteq> (Inr x, db')"
  by (simp add: refuse_def)

lemma accept_Inr [simp]: "accept y db = (Inr x, db') \<longleftrightarrow> x = y \<and> db' = db"
  by (auto simp: accept_def)

lemma ret_Inr: "ret x db = (Inr y, db') \<longleftrightarrow> y = x \<and> db' = db"
  by (auto simp: ret_def)

lemma tick_tables [simp]:
  "ratings (tick db) = ratings db" "users (tick db) = users db" "stores (tick db) = stores db"
  by (simp_all add: tick_def)

subsection \<open>The queries of the rating submission\<close>

lemma q_select_store:
  "pool_query 1 [a] (select_store_id p) db = (Inr x, db') \<Longrightarrow>
     \<exists>sid. p = Numeric sid \<and> in_int4 sid \<and>
       x = map s_id (filter (\<lambda>s. s_id s = sid) (stores db)) \<and> db' = tick db"
  by (auto simp: pool_query_Inr select_store_id_def with_int_Inr reading_Inr)

lemma q_select_existing:
  "pool_query 2 [a, b] (select_user_store_rating u (Numeric sid)) db = (Inr x, db') \<Longrightarrow>
     x = filter (rated u sid) (ratings db) \<and> db' = tick db"
  by (auto simp: pool_query_Inr select_user_store_rating_def with_int_Inr reading_Inr)

lemma q_stats:
  "pool_query 1 [a] (select_store_stats (Numeric sid)) db = (Inr x, db') \<Longrightarrow> db' = tick db"
  by (auto simp: pool_query_Inr select_store_stats_def with_int_Inr reading_Inr)

lemma q_update:
  "pool_query 4 [a, b, c, d] (update_user_store_rating rating cm u (Numeric sid)) db = (Inr x, db') \<Longrightarrow>
   \<exists>r \<in> set (ratings db). rated u sid r \<Longrightarrow>
     \<exists>v. js_int rating = Inr (Some v) \<and> 1 \<le> v \<and> v \<le> 5 \<and>
       ratings db' = map (\<lambda>r. if rated u sid r
          then r\<lparr>r_rating := v, r_comment := cm, r_updated_at := now (tick db)\<rparr> else r) (ratings db)"
  by (auto simp: pool_query_Inr update_user_store_rating_def with_int_Inr with_js_int_Inr
           split: if_splits option.splits)

lemma insert_rating_Inr:
  assumes "insert_rating u p rating cm db = (Inr x, db')"
  shows "\<exists>sid v. p = Numeric sid \<and> js_int rating = Inr (Some v) \<and> 1 \<le> v \<and> v \<le> 5 \<and>
           db' = db\<lparr>ratings_seq := ratings_seq db + 1,
                    ratings := ratings db @
                      [\<lparr>r_id = ratings_seq db, r_user_id = u, r_store_id = sid, r_rating = v,
                        r_comment = cm, r_created_at = now db, r_updated_at = now db\<rparr>]\<rparr>"
proof -
  from assms obtain sid val where sid: "p = Numeric sid" and val: "js_int rating = Inr val"
    and body: "(let db1 = db\<lparr>ratings_seq := ratings_seq db + 1\<rparr>
       in case val of
         None \<Rightarrow> refuse NotNullViolation db1
       | Some v \<Rightarrow>
           let row = \<lparr>r_id = ratings_seq db, r_user_id = u, r_store_id = sid, r_rating = v,
                      r_comment = cm, r_created_at = now db, r_updated_at = now db\<rparr>
           in if \<not> (1 \<le> v \<and> v \<le> 5) then refuse CheckViolation db1
              else if (\<exists>r \<in> set (ratings db). r_id r = r_id row) then refuse UniqueViolation db1
              else if (\<exists>r \<in> set (ratings db). rated u sid r) then refuse UniqueViolation db1
              else if \<not> (\<exists>u' \<in> set (users db). u_id u' = u) then refuse ForeignKeyViolation db1
              else if \<not> (\<exists>s \<in> set (stores db). s_id s = sid) then refuse ForeignKeyViolation db1
              else accept () (db1\<lparr>ratings := ratings db @ [row]\<rparr>)) = (Inr x, db')"
    by (auto simp: insert_rating_def with_int_Inr with_js_int_Inr)
  from body obtain v where v: "val = Some v" by (cases val) (simp_all add: Let_def)
  from body[unfolded v] have "1 \<le> v \<and> v \<le> 5 \<and>
           db' = db\<lparr>ratings_seq := ratings_seq db + 1,
                    ratings := ratings db @
                      [\<lparr>r_id = ratings_seq db, r_user_id = u, r_store_id = sid, r_rating = v,
                        r_comment = cm, r_created_at = now db, r_updated_at = now db\<rparr>]\<rparr>"
    by (simp add: Let_def split: if_splits)
  with sid val v show ?thesis by blast
qed

lemma q_insert:
  "pool_query 4 [a, b, c, d] (insert_rating u (Numeric sid) rating cm) db = (Inr x, db') \<Longrightarrow>
     \<exists>v row. js_int rating = Inr (Some v) \<and> 1 \<le> v \<and> v \<le> 5 \<and>
       ratings db' = ratings db @ [row] \<and> rated u sid row \<and> r_rating row = v \<and> r_comment row = cm"
  by (auto simp: pool_query_Inr rated_def dest!: insert_rating_Inr)

text \<open>What a submission that was answered with success has done.\<close>

lemma post_rating_success:
  assumes run: "post_rating storeId rating comment userId db = (resp, db')"
      and ok: "status resp \<noteq> 500" "status resp \<noteq> 404"
  shows "\<exists>sid v t. storeId = Numeric sid \<and> js_int rating = Inr (Some v) \<and> 1 \<le> v \<and> v \<le> 5 \<and>
          (if \<exists>r \<in> set (ratings db). rated userId sid r
           then status resp = 200 \<and>
                ratings db' = map (\<lambda>r. if rated userId sid r
                    then r\<lparr>r_rating := v, r_comment := or_null comment, r_updated_at := t\<rparr>
                    else r) (ratings db)
           else status resp = 201 \<and>
                (\<exists>row. ratings db' = ratings db @ [row] \<and> rated userId sid row \<and>
                       r_rating row = v \<and> r_comment row = or_null comment))"
proof -
  note body = try_catch_ok[OF run[unfolded post_rating_def] ok(1)]
  from body obtain storeResult db1 where
    q1: "pool_query 1 [PPath storeId] (select_store_id storeId) db = (Inr storeResult, db1)"
    unfolding andThen_Inr by blast
  from q_select_store[OF q1] obtain sid where sid: "storeId = Numeric sid" and db1: "db1 = tick db"
    by blast
  from body q1 ok(2) obtain existingRating db2 where
    q2: "pool_query 2 [PInt userId, PPath storeId] (select_user_store_rating userId storeId) db1
           = (Inr existingRating, db2)"
    by (auto simp: andThen_Inr ret_Inr json_def split: if_splits)
  from q_select_existing[OF q2[unfolded sid]] db1
  have ex: "existingRating = filter (rated userId sid) (ratings db)" and db2: "db2 = tick (tick db)"
    by simp_all
  show ?thesis
  proof (cases "\<exists>r \<in> set (ratings db). rated userId sid r")
    case True
    then have "length existingRating > 0" by (auto simp: ex filter_empty_conv)
    with body q1 q2 ok(2) obtain db3 st where
      q3: "pool_query 4 [PJs rating, text_param (or_null comment), PInt userId, PPath storeId]
             (update_user_store_rating rating (or_null comment) userId storeId) db2 = (Inr (), db3)"
      and q4: "pool_query 1 [PPath storeId] (select_store_stats storeId) db3 = (Inr st, db')"
      and r: "status resp = 200"
      by (auto simp: andThen_Inr ret_Inr json_def split: if_splits)
    from q_update[OF q3[unfolded sid]] True db2 obtain v where
      "js_int rating = Inr (Some v)" "1 \<le> v" "v \<le> 5"
      "ratings db3 = map (\<lambda>r. if rated userId sid r
          then r\<lparr>r_rating := v, r_comment := or_null comment, r_updated_at := now (tick db2)\<rparr>
          else r) (ratings db)"
      by auto
    moreover have "ratings db' = ratings db3" using q_stats[OF q4[unfolded sid]] by simp
    ultimately show ?thesis using True sid r by auto
  next
    case False
    then have "\<not> length existingRating > 0" by (auto simp: ex filter_empty_conv)
    with body q1 q2 ok(2) obtain db3 st where
      q3: "pool_query 4 [PInt userId, PPath storeId, PJs rating, text_param (or_null comment)]
                           (insert_rating userId storeId rating (or_null comment)) db2 = (Inr (), db3)"
      and q4: "pool_query 1 [PPath storeId] (select_store_stats storeId) db3 = (Inr st, db')"
      and r: "status resp = 201"
      by (auto simp: andThen_Inr ret_Inr json_def split: if_splits)
    from q_insert[OF q3[unfolded sid]] db2 obtain v row where
      "js_int rating = Inr (Some v)" "1 \<le> v" "v \<le> 5"
      "ratings db3 = ratings db @ [row]" "rated userId sid row" "r_rating row = v"
      "r_comment row = or_null comment"
      by auto
    moreover have "ratings db' = ratings db3" using q_stats[OF q4[unfolded sid]] by simp
    ultimately show ?thesis using False sid r by auto
  qed
qed

section \<open>The upsert law of rating submission\<close>

lemma filter_key_single:
  assumes "distinct (map f xs)" and "x \<in> set xs"
  shows "filter (\<lambda>y. f y = f x) xs = [x]"
  using assms
proof (induction xs)
  case Nil
  then show ?case by simp
next
  case (Cons a xs)
  show ?case
  proof (cases "a = x")
    case True
    with Cons.prems have "\<forall>y \<in> set xs. f y \<noteq> f x" by (auto simp: image_iff)
    then have "filter (\<lambda>y. f y = f x) xs = []" by (simp add: filter_empty_conv)
    with True show ?thesis by simp
  next
    case False
    with Cons.prems have "x \<in> set xs" and "f a \<noteq> f x" by (auto simp: image_iff)
    with Cons show ?thesis by simp
  qed
qed

lemma rated_key: "rated u s r \<longleftrightarrow> (r_user_id r, r_store_id r) = (u, s)"
  by (auto simp: rated_def)

lemma rated_single:
  assumes "distinct (map (\<lambda>r. (r_user_id r, r_store_id r)) rs)" and "x \<in> set rs" and "rated u s x"
  shows "filter (rated u s) rs = [x]"
proof -
  have "(r_user_id x, r_store_id x) = (u, s)" using assms(3) by (simp add: rated_key)
  then have "filter (rated u s) rs =
             filter (\<lambda>y. (r_user_id y, r_store_id y) = (r_user_id x, r_store_id x)) rs"
    by (simp add: rated_key[abs_def])
  with filter_key_single[OF assms(1,2)] show ?thesis by simp
qed

text \<open>Writing the rating, comment and timestamp of the rows of a pair leaves every
  row's id, user and store alone, and the other rows as they are.\<close>

lemma update_keeps_keys:
  "map (\<lambda>r. (r_user_id r, r_store_id r))
     (map (\<lambda>r. if rated u s r then r\<lparr>r_rating := v, r_comment := c, r_updated_at := t\<rparr> else r) rs)
   = map (\<lambda>r. (r_user_id r, r_store_id r)) rs"
  by (induction rs) auto

lemma update_keeps_ids:
  "map r_id (map (\<lambda>r. if rated u s r then r\<lparr>r_rating := v, r_comment := c, r_updated_at := t\<rparr> else r) rs)
   = map r_id rs"
  by (induction rs) auto

lemma update_filter_rated:
  "filter (rated u s)
     (map (\<lambda>r. if rated u s r then r\<lparr>r_rating := v, r_comment := c, r_updated_at := t\<rparr> else r) rs)
   = map (\<lambda>r. r\<lparr>r_rating := v, r_comment := c, r_updated_at := t\<rparr>) (filter (rated u s) rs)"
  by (induction rs) (auto simp: rated_def)

lemma update_filter_others:
  "filter (\<lambda>r. \<not> rated u s r)
     (map (\<lambda>r. if rated u s r then r\<lparr>r_rating := v, r_comment := c, r_updated_at := t\<rparr> else r) rs)
   = filter (\<lambda>r. \<not> rated u s r) rs"
  by (induction rs) (auto simp: rated_def)

text \<open>
  C1, as the code has it. Two submissions of one user for one store, both answered with
  success, on a table that meets \<^verbatim>\<open>UNIQUE(user_id, store_id)\<close>: afterwards the pair has
  exactly one row; its rating is the second submission's and its comment is the second
  submission's \<^verbatim>\<open>comment || null\<close>. The first submission inserts a row (201) when the
  pair had none and updates in place (200) otherwise; the second always updates in
  place: no row is added, no id changes and the rows of other pairs stay as they are.
\<close>

theorem rating_upsert_law:
  assumes unique: "distinct (map (\<lambda>r. (r_user_id r, r_store_id r)) (ratings db))"
      and first: "post_rating storeId rating1 comment1 userId db = (resp1, db1)"
      and ok1: "status resp1 = 200 \<or> status resp1 = 201"
      and second: "post_rating storeId rating2 comment2 userId db1 = (resp2, db2)"
      and ok2: "status resp2 = 200 \<or> status resp2 = 201"
  shows "\<exists>sid row. storeId = Numeric sid \<and>
           filter (rated userId sid) (ratings db2) = [row] \<and>
           js_int rating2 = Inr (Some (r_rating row)) \<and>
           r_comment row = or_null comment2 \<and>
           (if \<exists>r \<in> set (ratings db). rated userId sid r
            then status resp1 = 200 \<and> map r_id (ratings db1) = map r_id (ratings db)
            else status resp1 = 201 \<and> (\<exists>new. ratings db1 = ratings db @ [new])) \<and>
           status resp2 = 200 \<and>
           map r_id (ratings db2) = map r_id (ratings db1) \<and>
           filter (\<lambda>r. \<not> rated userId sid r) (ratings db2) =
             filter (\<lambda>r. \<not> rated userId sid r) (ratings db1)"
proof -
  let ?key = "\<lambda>r. (r_user_id r, r_store_id r)"
  from post_rating_success[OF first] ok1 obtain sid v1 t1 where
    sid: "storeId = Numeric sid" and
    one: "if \<exists>r \<in> set (ratings db). rated userId sid r
          then status resp1 = 200 \<and>
               ratings db1 = map (\<lambda>r. if rated userId sid r
                   then r\<lparr>r_rating := v1, r_comment := or_null comment1, r_updated_at := t1\<rparr>
                   else r) (ratings db)
          else status resp1 = 201 \<and>
               (\<exists>row. ratings db1 = ratings db @ [row] \<and> rated userId sid row \<and>
                      r_rating row = v1 \<and> r_comment row = or_null comment1)"
    by auto
  have db1: "distinct (map ?key (ratings db1)) \<and> (\<exists>r \<in> set (ratings db1). rated userId sid r)"
  proof (cases "\<exists>r \<in> set (ratings db). rated userId sid r")
    case True
    with one have eq: "ratings db1 = map (\<lambda>r. if rated userId sid r
                   then r\<lparr>r_rating := v1, r_comment := or_null comment1, r_updated_at := t1\<rparr>
                   else r) (ratings db)" by simp
    from True obtain r where "r \<in> set (ratings db)" "rated userId sid r" by blast
    then have "filter (rated userId sid) (ratings db1) \<noteq> []"
      unfolding eq update_filter_rated by (auto simp: filter_empty_conv)
    then have "\<exists>r \<in> set (ratings db1). rated userId sid r" by (auto simp: filter_empty_conv)
    moreover have "distinct (map ?key (ratings db1))"
      unfolding eq update_keeps_keys by (rule unique)
    ultimately show ?thesis by simp
  next
    case False
    with one obtain row where eq: "ratings db1 = ratings db @ [row]" and row: "rated userId sid row"
      by auto
    from False row have "?key row \<notin> set (map ?key (ratings db))"
      by (auto simp: rated_def)
    with unique have "distinct (map ?key (ratings db1))" by (simp add: eq)
    with eq row show ?thesis by auto
  qed
  then obtain row1 where row1: "row1 \<in> set (ratings db1)" "rated userId sid row1" by blast
  from post_rating_success[OF second] ok2 obtain sid' v2 t2 where
    sid': "storeId = Numeric sid'" and
    v2: "js_int rating2 = Inr (Some v2)" and
    two: "if \<exists>r \<in> set (ratings db1). rated userId sid' r
          then status resp2 = 200 \<and>
               ratings db2 = map (\<lambda>r. if rated userId sid' r
                   then r\<lparr>r_rating := v2, r_comment := or_null comment2, r_updated_at := t2\<rparr>
                   else r) (ratings db1)
          else status resp2 = 201 \<and>
               (\<exists>row. ratings db2 = ratings db1 @ [row] \<and> rated userId sid' row \<and>
                      r_rating row = v2 \<and> r_comment row = or_null comment2)"
    by auto
  from sid sid' have same: "sid' = sid" by simp
  from two db1 have r2: "status resp2 = 200" and
    eq2: "ratings db2 = map (\<lambda>r. if rated userId sid r
             then r\<lparr>r_rating := v2, r_comment := or_null comment2, r_updated_at := t2\<rparr>
             else r) (ratings db1)"
    unfolding same by simp_all
  have "filter (rated userId sid) (ratings db2) =
          [row1\<lparr>r_rating := v2, r_comment := or_null comment2, r_updated_at := t2\<rparr>]"
    unfolding eq2 update_filter_rated using rated_single[OF _ row1] db1 by simp
  moreover have "map r_id (ratings db2) = map r_id (ratings db1)"
    unfolding eq2 by (rule update_keeps_ids)
  moreover have "filter (\<lambda>r. \<not> rated userId sid r) (ratings db2) =
             filter (\<lambda>r. \<not> rated userId sid r) (ratings db1)"
    unfolding eq2 by (rule update_filter_others)
  moreover have "if \<exists>r \<in> set (ratings db). rated userId sid r
            then status resp1 = 200 \<and> map r_id (ratings db1) = map r_id (ratings db)
            else status resp1 = 201 \<and> (\<exists>new. ratings db1 = ratings db @ [new])"
    using one by (auto simp: update_keeps_ids)
  ultimately show ?thesis using sid v2 r2 by simp
qed

lemmas demo_run =
  post_rating_def try_catch_def andThen_def pool_query_def lost_def tick_def failed_def
  ret_def throw_def json_def internal_error_def with_int_def with_js_int_def js_int_def reading_def
  refuse_def accept_def in_int4_def
  select_store_id_def select_user_store_rating_def update_user_store_rating_def insert_rating_def
  select_store_stats_def rated_def coalesce_def or_null_def text_param_def
  demo_db_def demo_users_def demo_stores_def

theorem rating_upsert_law_witness:
  "\<exists>sid row. Numeric 1 = Numeric sid \<and>
     filter (rated 3 sid)
       (ratings (snd (post_rating (Numeric 1) (JNumber 4) (Some ''Fine'') 3
          (snd (post_rating (Numeric 1) (JNumber 5) (Some ''Great'') 3 demo_db))))) = [row] \<and>
     js_int (JNumber 4) = Inr (Some (r_rating row)) \<and> r_comment row = or_null (Some ''Fine'')"
proof -
  let ?one = "post_rating (Numeric 1) (JNumber 5) (Some ''Great'') 3 demo_db"
  let ?two = "post_rating (Numeric 1) (JNumber 4) (Some ''Fine'') 3 (snd ?one)"
  have unique: "distinct (map (\<lambda>r. (r_user_id r, r_store_id r)) (ratings demo_db))"
    by (simp add: demo_db_def)
  have first: "?one = (fst ?one, snd ?one)" by simp
  have ok1: "status (fst ?one) = 200 \<or> status (fst ?one) = 201" by (simp add: demo_run)
  have second: "?two = (fst ?two, snd ?two)" by simp
  have ok2: "status (fst ?two) = 200 \<or> status (fst ?two) = 201" by (simp add: demo_run)
  from rating_upsert_law[OF unique first ok1 second ok2] show ?thesis by blast
qed

text \<open>
  C1 as the claim words it fails on the comment: a second submission with the empty
  comment leaves the row with no comment (NULL), which is not the comment submitted.
\<close>

theorem rating_upsert_comment_counterexample:
  "status (fst (post_rating (Numeric 1) (JNumber 5) (Some ''Great'') 3 demo_db)) = 201 \<and>
   status (fst (post_rating (Numeric 1) (JNumber 4) (Some '''') 3
      (snd (post_rating (Numeric 1) (JNumber 5) (Some ''Great'') 3 demo_db)))) = 200 \<and>
   map r_comment (ratings (snd (post_rating (Numeric 1) (JNumber 4) (Some '''') 3
      (snd (post_rating (Numeric 1) (JNumber 5) (Some ''Great'') 3 demo_db))))) = [None] \<and>
   [None] \<noteq> [Some '''']"
  by (simp add: demo_run)

section \<open>Sorting and paging\<close>

lemma arrange_mset: "mset (arrange ranks rows) = mset rows"
proof -
  let ?rs = "ranks @ replicate (length rows - length ranks) 0"
  have "mset (arrange ranks rows) = mset (map snd (zip ?rs rows))"
    by (simp add: arrange_def)
  also have "map snd (zip ?rs rows) = rows"
    by (simp add: map_snd_zip_take)
  finally show ?thesis .
qed


lemma order_by_mset: "mset (order_by key direction ranks rows) = mset rows"
  by (simp add: order_by_def arrange_mset)

lemma order_by_length: "length (order_by key direction ranks rows) = length rows"
  using order_by_mset[of key direction ranks rows] by (rule mset_eq_length)




lemma order_stores_rows:
  "mset (order_stores collate sortBy direction ranks rows) = mset rows"
  "length (order_stores collate sortBy direction ranks rows) = length rows"
  by (simp_all add: order_stores_def order_by_mset order_by_length)






subsection \<open>Numbers within the safe range\<close>

lemma to_double_safe: "\<bar>n\<bar> \<le> 9007199254740992 \<Longrightarrow> to_double n = Some n"
  by (simp add: to_double_def)

lemma js_print_safe: "\<bar>n\<bar> \<le> 9007199254740992 \<Longrightarrow> js_print n = n"
  by (simp add: js_print_def)

lemma pg_bigint_safe:
  assumes "\<bar>n\<bar> \<le> 9007199254740992"
  shows "pg_bigint (Some n) = Inr n"
proof -
  from assms have "\<not> 10 ^ 21 \<le> \<bar>n\<bar>" "- (2 ^ 63) \<le> n" "n < 2 ^ 63" by simp_all
  with assms show ?thesis by (simp add: pg_bigint_def js_print_def)
qed

lemma paged_safe:
  assumes "0 \<le> l" "l \<le> 9007199254740992" "0 \<le> off" "off \<le> 9007199254740992"
  shows "paged (Some l) (Some off) rows db = (Inr (take (nat l) (drop (nat off) (rows db))), db)"
  using assms by (simp add: paged_def pg_bigint_safe limit_offset_def accept_def)

subsection \<open>One page of a list\<close>

lemma no_faults:
  assumes "faults db = []"
  shows "\<not> lost db" "\<not> lost (tick db)" "faults (tick db) = []"
  using assms by (simp_all add: lost_def tick_def)

lemma select_rows_tick [simp]:
  "select_stores ilike pat (tick db) = select_stores ilike pat db"
  "select_users ilike pat rl (tick db) = select_users ilike pat rl db"
  by (simp_all add: select_stores_def select_users_def)

text \<open>One page of stores, when the sort parameters are allowed and no query is lost.\<close>

lemma list_stores_page:
  assumes nf: "faults db = []"
      and "coalesce (q_sortBy req) ''name'' \<in> set [''name'', ''address'', ''created_at'']"
      and "toLowerCase (coalesce (q_sortOrder req) ''asc'') \<in> set [''asc'', ''desc'']"
      and L: "L = coalesce (q_limit req) 20" "1 \<le> L" "L \<le> max_safe"
      and p: "p = coalesce (q_page req) 1" "1 \<le> p" "(p - 1) * L \<le> max_safe"
  shows "list_stores collate ilike req db =
           (json 200 (StoreList
              (take (nat L) (drop (nat ((p - 1) * L))
                 (order_stores collate (coalesce (q_sortBy req) ''name'')
                    (toUpperCase (coalesce (q_sortOrder req) ''asc'')) (plan (tick (tick db)))
                    (select_stores ilike (search_pattern (q_search req)) db))))
              \<lparr>currentPage = Some p,
               totalPages = Some \<lceil>rat_of_nat (length (filter
                   (store_matches ilike (search_pattern (q_search req))) (stores db))) /
                   rat_of_int L\<rceil>,
               totalRows = length (filter
                   (store_matches ilike (search_pattern (q_search req))) (stores db)),
               pageLimit = Some L\<rparr>),
            tick (tick db))"
proof -
  from L(2) p(2,3) have "p - 1 \<le> (p - 1) * L" by (simp add: mult_le_cancel_left1)
  with p(2,3) have psafe: "\<bar>p\<bar> \<le> 9007199254740992" "\<bar>p - 1\<bar> \<le> 9007199254740992"
    by (simp_all add: max_safe_def)
  from L(2,3) have lsafe: "\<bar>L\<bar> \<le> 9007199254740992" "0 \<le> L" "L \<le> 9007199254740992" "L \<noteq> 0"
    by (simp_all add: max_safe_def)
  from L(2) p(2,3) have osafe: "\<bar>(p - 1) * L\<bar> \<le> 9007199254740992" "0 \<le> (p - 1) * L"
    "(p - 1) * L \<le> 9007199254740992"
    by (simp_all add: max_safe_def)
  have nums: "to_double (coalesce (q_page req) 1) = Some p"
    "to_double (coalesce (q_limit req) 20) = Some L"
    "js_times (js_minus (Some p) 1) (Some L) = Some ((p - 1) * L)"
    using psafe lsafe(1) osafe(1)
    by (simp_all add: L(1)[symmetric] p(1)[symmetric] js_times_def js_minus_def to_double_safe)
  show ?thesis
    using assms(2,3) no_faults[OF nf] lsafe(4) psafe(1) lsafe(1)
    by (simp add: list_stores_def Let_def try_catch_def andThen_def pool_query_def
          count_stores_def reading_def ret_def math_ceil_div_def nums
          paged_safe[OF lsafe(2,3) osafe(2,3)] matching_stores_def js_print_safe
          del: set_simps)
qed

text \<open>One page of users, under the same conditions.\<close>

lemma list_users_page:
  assumes nf: "faults db = []"
      and "coalesce (q_sortBy req) ''name'' \<in> set [''name'', ''email'', ''address'', ''role'', ''created_at'']"
      and "toLowerCase (coalesce (q_sortOrder req) ''asc'') \<in> set [''asc'', ''desc'']"
      and L: "L = coalesce (q_limit req) 20" "1 \<le> L" "L \<le> max_safe"
      and p: "p = coalesce (q_page req) 1" "1 \<le> p" "(p - 1) * L \<le> max_safe"
  shows "list_users collate ilike req db =
           (json 200 (UserList
              (take (nat L) (drop (nat ((p - 1) * L))
                 (order_users collate (coalesce (q_sortBy req) ''name'')
                    (toUpperCase (coalesce (q_sortOrder req) ''asc'')) (plan (tick (tick db)))
                    (select_users ilike (search_pattern (q_search req)) (truthy (q_role req)) db))))
              \<lparr>currentPage = Some p,
               totalPages = Some \<lceil>rat_of_nat (length (filter
                   (user_matches ilike (search_pattern (q_search req)) (truthy (q_role req)))
                   (users db))) / rat_of_int L\<rceil>,
               totalRows = length (filter
                   (user_matches ilike (search_pattern (q_search req)) (truthy (q_role req)))
                   (users db)),
               pageLimit = Some L\<rparr>),
            tick (tick db))"
proof -
  from L(2) p(2,3) have "p - 1 \<le> (p - 1) * L" by (simp add: mult_le_cancel_left1)
  with p(2,3) have psafe: "\<bar>p\<bar> \<le> 9007199254740992" "\<bar>p - 1\<bar> \<le> 9007199254740992"
    by (simp_all add: max_safe_def)
  from L(2,3) have lsafe: "\<bar>L\<bar> \<le> 9007199254740992" "0 \<le> L" "L \<le> 9007199254740992" "L \<noteq> 0"
    by (simp_all add: max_safe_def)
  from L(2) p(2,3) have osafe: "\<bar>(p - 1) * L\<bar> \<le> 9007199254740992" "0 \<le> (p - 1) * L"
    "(p - 1) * L \<le> 9007199254740992"
    by (simp_all add: max_safe_def)
  have nums: "to_double (coalesce (q_page req) 1) = Some p"
    "to_double (coalesce (q_limit req) 20) = Some L"
    "js_times (js_minus (Some p) 1) (Some L) = Some ((p - 1) * L)"
    using psafe lsafe(1) osafe(1)
    by (simp_all add: L(1)[symmetric] p(1)[symmetric] js_times_def js_minus_def to_double_safe)
  show ?thesis
    using assms(2,3) no_faults[OF nf] lsafe(4) psafe(1) lsafe(1)
    by (simp add: list_users_def Let_def try_catch_def andThen_def pool_query_def
          count_users_def reading_def ret_def math_ceil_div_def nums
          paged_safe[OF lsafe(2,3) osafe(2,3)] matching_users_def js_print_safe
          del: set_simps)
qed

lemma coalesce_Some [simp]: "coalesce (Some x) d = x"
  by (simp add: coalesce_def)

lemma toLowerCase_asc: "toLowerCase ''asc'' = ''asc''" "toUpperCase ''asc'' = ''ASC''"
  by code_simp+

section \<open>The aggregate rating of a store\<close>

lemma non_null_Some: "non_null (map Some xs) = xs"
  by (induction xs) simp_all

lemma non_null_left_join:
  "non_null (left_join_ratings s rs) = filter (\<lambda>r. r_store_id r = s_id s) rs"
  by (simp add: left_join_ratings_def Let_def non_null_Some)

lemma store_with_rating_aggregate:
  "v_id (store_with_rating rs s) = s_id s"
  "v_total_ratings (store_with_rating rs s) = length (filter (\<lambda>r. r_store_id r = s_id s) rs)"
  "v_average_rating (store_with_rating rs s) =
     coalesce (avg (map r_rating (filter (\<lambda>r. r_store_id r = s_id s) rs))) 0"
  by (simp_all add: store_with_rating_def Let_def non_null_left_join)

subsection \<open>The scale of an average of ratings\<close>

text \<open>The weight and the first digit of a number in base 10000 bracket it.\<close>

lemma nbase_head_bounds:
  assumes "0 \<le> n" and "nbase_head n = (w, d)"
  shows "d * 10000 ^ w \<le> n \<and> n < (d + 1) * 10000 ^ w \<and> 0 \<le> d \<and> d < 10000 \<and> (0 < n \<longrightarrow> 0 < d)"
  using assms
proof (induction n arbitrary: w d rule: nbase_head.induct)
  case (1 n)
  show ?case
  proof (cases "n < 10000")
    case True
    with 1(3) have "w = 0" "d = n" by (simp_all add: nbase_head.simps[of n])
    with True 1(2) show ?thesis by simp
  next
    case False
    obtain w' d' where h: "nbase_head (n div 10000) = (w', d')" by force
    with False 1(3) have wd: "w = Suc w'" "d = d'" by (simp_all add: nbase_head.simps[of n])
    from False have pos: "0 \<le> n div 10000" "0 < n div 10000" by simp_all
    from 1(1)[OF False pos(1) h] pos(2)
    have ih: "d' * 10000 ^ w' \<le> n div 10000" "n div 10000 < (d' + 1) * 10000 ^ w'"
      "0 \<le> d'" "d' < 10000" "0 < d'" by simp_all
    have n: "n = (n div 10000) * 10000 + n mod 10000" by simp
    have m: "0 \<le> n mod 10000" "n mod 10000 < 10000" by simp_all
    from ih(1) have "d' * 10000 ^ w' * 10000 \<le> (n div 10000) * 10000" by simp
    with n m have lower: "d' * 10000 ^ Suc w' \<le> n" by (simp add: mult.assoc mult.commute)
    from ih(2) have "n div 10000 + 1 \<le> (d' + 1) * 10000 ^ w'" by simp
    then have "(n div 10000 + 1) * 10000 \<le> (d' + 1) * 10000 ^ w' * 10000" by simp
    with n m have upper: "n < (d' + 1) * 10000 ^ Suc w'"
      by (simp add: mult.assoc mult.commute distrib_left)
    from lower upper ih wd show ?thesis by simp
  qed
qed

lemma select_div_scale_ratings:
  assumes n: "0 < n" and lo: "n \<le> S" and hi: "S \<le> 5 * n"
  shows "select_div_scale S n = 16 \<or> select_div_scale S n = 20"
proof -
  obtain w1 d1 where h1: "nbase_head S = (w1, d1)" by force
  obtain w2 d2 where h2: "nbase_head n = (w2, d2)" by force
  from n lo have S: "0 \<le> S" "0 < S" by simp_all
  from nbase_head_bounds[OF S(1) h1] S(2)
  have b1: "d1 * 10000 ^ w1 \<le> S" "S < (d1 + 1) * 10000 ^ w1" "0 < d1" "d1 < 10000" by simp_all
  from nbase_head_bounds[OF _ h2] n
  have b2: "d2 * 10000 ^ w2 \<le> n" "n < (d2 + 1) * 10000 ^ w2" "0 < d2" "d2 < 10000" by simp_all
  have up1: "S < 10000 ^ Suc w1"
  proof -
    from b1(4) have "(d1 + 1) * 10000 ^ w1 \<le> 10000 * 10000 ^ w1"
      by (intro mult_right_mono) simp_all
    with b1(2) have "S < 10000 * 10000 ^ w1" by (rule less_le_trans)
    then show ?thesis by simp
  qed
  have up2: "n < 10000 ^ Suc w2"
  proof -
    from b2(4) have "(d2 + 1) * 10000 ^ w2 \<le> 10000 * 10000 ^ w2"
      by (intro mult_right_mono) simp_all
    with b2(2) have "n < 10000 * 10000 ^ w2" by (rule less_le_trans)
    then show ?thesis by simp
  qed
  have low1: "(10000::int) ^ w1 \<le> S"
  proof -
    from b1(3) have "1 * 10000 ^ w1 \<le> d1 * 10000 ^ w1" by (intro mult_right_mono) simp_all
    then have "10000 ^ w1 \<le> d1 * 10000 ^ w1" by (simp only: mult_1)
    then show ?thesis using b1(1) by (rule order_trans)
  qed
  have low2: "(10000::int) ^ w2 \<le> n"
  proof -
    from b2(3) have "1 * 10000 ^ w2 \<le> d2 * 10000 ^ w2" by (intro mult_right_mono) simp_all
    then have "10000 ^ w2 \<le> d2 * 10000 ^ w2" by (simp only: mult_1)
    then show ?thesis using b2(1) by (rule order_trans)
  qed
  have w21: "w2 \<le> w1"
  proof (rule ccontr)
    assume "\<not> w2 \<le> w1"
    then have "Suc w1 \<le> w2" by simp
    then have "(10000::int) ^ Suc w1 \<le> 10000 ^ w2" by (intro power_increasing) simp_all
    with up1 low2 lo show False by simp
  qed
  have w12: "w1 \<le> Suc w2"
  proof (rule ccontr)
    assume "\<not> w1 \<le> Suc w2"
    then have "Suc (Suc w2) \<le> w1" by simp
    then have "(10000::int) ^ Suc (Suc w2) \<le> 10000 ^ w1" by (intro power_increasing) simp_all
    with low1 have "10000 * (10000 * 10000 ^ w2) \<le> S" by simp
    moreover from up2 have "n < 10000 * 10000 ^ w2" by simp
    moreover have "0 < (10000::int) ^ w2" by simp
    ultimately show False using hi by linarith
  qed
  have step: "d1 \<le> d2" if "w1 = Suc w2"
  proof (rule ccontr)
    assume "\<not> d1 \<le> d2"
    then have "d2 + 1 \<le> d1" by simp
    then have "(d2 + 1) * 10000 ^ w1 \<le> d1 * 10000 ^ w1" by (intro mult_right_mono) simp_all
    then have "(d2 + 1) * 10000 ^ w1 \<le> S" using b1(1) by (rule order_trans)
    then have "10000 * ((d2 + 1) * 10000 ^ w2) \<le> S" by (simp add: that mult.left_commute)
    with b2(2) hi n show False by linarith
  qed
  from w21 w12 consider "w1 = w2" | "w1 = Suc w2" by linarith
  then show ?thesis
  proof cases
    case 1
    with h1 h2 S(1) n show ?thesis
      by (simp add: select_div_scale_def Let_def)
  next
    case 2
    with step h1 h2 S(1) n show ?thesis
      by (simp add: select_div_scale_def Let_def)
  qed
qed

lemma sum_list_ratings:
  assumes "\<forall>x \<in> set xs. 1 \<le> x \<and> x \<le> (5::int)"
  shows "int (length xs) \<le> sum_list xs \<and> sum_list xs \<le> 5 * int (length xs)"
  using assms by (induction xs) auto

lemma round_half_up:
  fixes x :: rat
  shows "\<bar>of_int \<lfloor>x * 10 ^ k + 1 / 2\<rfloor> / 10 ^ k - x\<bar> \<le> 1 / (2 * 10 ^ k)"
proof -
  let ?y = "x * 10 ^ k"
  let ?r = "rat_of_int \<lfloor>?y + 1 / 2\<rfloor>"
  have "?r \<le> ?y + 1 / 2" by (rule of_int_floor_le)
  moreover have "?y + 1 / 2 < ?r + 1" using floor_correct[of "?y + 1 / 2"] by simp
  ultimately have "\<bar>?r - ?y\<bar> \<le> 1 / 2" by linarith
  then have "\<bar>?r - ?y\<bar> / 10 ^ k \<le> (1 / 2) / 10 ^ k" by (intro divide_right_mono) simp_all
  moreover have "\<bar>?r - ?y\<bar> / 10 ^ k = \<bar>(?r - ?y) / 10 ^ k\<bar>"
    by (rule abs_div_pos) simp
  moreover have "(?r - ?y) / 10 ^ k = ?r / 10 ^ k - x"
    by (simp add: diff_divide_distrib)
  ultimately show ?thesis by simp
qed

lemma round_exact:
  fixes x :: rat
  assumes "x * 10 ^ 16 = of_int j" and "16 \<le> k"
  shows "of_int \<lfloor>x * 10 ^ k + 1 / 2\<rfloor> / 10 ^ k = x"
proof -
  from assms(2) obtain m where k: "k = 16 + m" by (auto simp: le_iff_add)
  have "x * 10 ^ k = of_int (j * 10 ^ m)" using assms(1) by (simp add: k power_add)
  then have "\<lfloor>x * 10 ^ k + 1 / 2\<rfloor> = j * 10 ^ m"
    by (intro floor_unique) simp_all
  then have "of_int \<lfloor>x * 10 ^ k + 1 / 2\<rfloor> / 10 ^ k = (x * 10 ^ k) / 10 ^ k"
    using \<open>x * 10 ^ k = of_int (j * 10 ^ m)\<close> by simp
  then show ?thesis by simp
qed

text \<open>
  The average of ratings that meet the CHECK of the column is their mean rounded to 16
  or to 20 decimal places.
\<close>

lemma avg_ratings:
  assumes "xs \<noteq> []" and "\<forall>x \<in> set xs. 1 \<le> x \<and> x \<le> 5"
  shows "\<exists>k. (k = 16 \<or> k = 20) \<and>
           avg xs = Some (of_int \<lfloor>rat_of_int (sum_list xs) / rat_of_nat (length xs) * 10 ^ k + 1 / 2\<rfloor>
                            / 10 ^ k)"
proof -
  let ?S = "sum_list xs" and ?n = "int (length xs)"
  from assms(1) have n: "0 < ?n" by simp
  from sum_list_ratings[OF assms(2)] have b: "?n \<le> ?S" "?S \<le> 5 * ?n" by simp_all
  from n b(1) have "0 \<le> rat_of_int ?S / rat_of_int ?n" by (intro divide_nonneg_pos) simp_all
  then have "avg xs = Some (of_int \<lfloor>rat_of_int ?S / rat_of_int ?n * 10 ^ select_div_scale ?S ?n + 1 / 2\<rfloor>
                             / 10 ^ select_div_scale ?S ?n)"
    using assms(1) by (simp add: avg_def numeric_div_def round_numeric_def)
  with select_div_scale_ratings[OF n b] show ?thesis by auto
qed

text \<open>
  C2, as the code has it. A store \<open>s\<close> of the table (ids being unique and ratings
  within 1..5, as the schema has them) with the ratings \<open>rs\<close>, on a database whose
  queries are not lost. One row \<open>v\<close> is what \<^verbatim>\<open>GET /api/stores/:id\<close> and
  \<^verbatim>\<open>GET /api/stores/:id/authenticated\<close> answer with, what \<^verbatim>\<open>GET /api/stores\<close> lists for
  the store (asked for a page that holds every store), and what the view
  \<^verbatim>\<open>store_ratings_summary\<close> has for the store, once. Its \<open>total_ratings\<close> is the number
  of ratings. Its \<open>average_rating\<close> is 0 when there is none; otherwise it is the mean
  rounded, half up, to 16 or to 20 decimal places, which is within \<open>5 / 10 ^ 17\<close> of the
  mean and is the mean when that has no more than 16 decimal places.
\<close>

theorem store_aggregate_rating:
  fixes collate :: "string \<Rightarrow> 'c::linorder"
  assumes nf: "faults db = []"
      and s: "s \<in> set (stores db)"
      and key: "distinct (map s_id (stores db))"
      and ident: "in_int4 (s_id s)"
      and check: "\<forall>r \<in> set (ratings db). 1 \<le> r_rating r \<and> r_rating r \<le> 5"
      and rs: "rs = map r_rating (filter (\<lambda>r. r_store_id r = s_id s) (ratings db))"
      and mean: "mean = rat_of_int (sum_list rs) / rat_of_nat (length rs)"
      and req: "req = \<lparr>q_search = None, q_role = None, q_sortBy = None, q_sortOrder = None,
                       q_page = None, q_limit = Some L\<rparr>"
      and L: "int (length (stores db)) \<le> L" "L \<le> max_safe"
  shows "\<exists>v k.
           v_id v = s_id s \<and> v_total_ratings v = length rs \<and>
           (rs = [] \<longrightarrow> v_average_rating v = 0) \<and>
           (rs \<noteq> [] \<longrightarrow>
              (k = 16 \<or> k = 20) \<and>
              v_average_rating v = of_int \<lfloor>mean * 10 ^ k + 1 / 2\<rfloor> / 10 ^ k \<and>
              \<bar>v_average_rating v - mean\<bar> \<le> 1 / (2 * 10 ^ 16) \<and>
              (\<forall>j. mean * 10 ^ 16 = of_int j \<longrightarrow> v_average_rating v = mean)) \<and>
           fst (get_store (Numeric (s_id s)) db) = json 200 (StoreDetail v) \<and>
           (\<exists>mine. fst (get_store_authenticated (Numeric (s_id s)) userId db) =
                      json 200 (StoreDetailFor v mine)) \<and>
           v \<in> set (listed_stores (fst (list_stores collate ilike req db))) \<and>
           (s, \<lparr>average_rating = v_average_rating v, total_ratings = v_total_ratings v\<rparr>)
             \<in> set (store_ratings_summary db) \<and>
           (\<forall>st. (s, st) \<in> set (store_ratings_summary db) \<longrightarrow>
              st = \<lparr>average_rating = v_average_rating v, total_ratings = v_total_ratings v\<rparr>)"
proof -
  let ?v = "store_with_rating (ratings db) s"
  have found: "filter (\<lambda>s'. s_id s' = s_id s) (stores db) = [s]"
    using key s by (rule filter_key_single)
  have total: "v_id ?v = s_id s" "v_total_ratings ?v = length rs"
    and average: "v_average_rating ?v = coalesce (avg rs) 0"
    by (simp_all add: store_with_rating_aggregate rs)
  have none: "v_average_rating ?v = 0" if "rs = []"
    using that by (simp add: average avg_def coalesce_def)
  have some: "\<exists>k. (k = 16 \<or> k = 20) \<and>
              v_average_rating ?v = of_int \<lfloor>mean * 10 ^ k + 1 / 2\<rfloor> / 10 ^ k \<and>
              \<bar>v_average_rating ?v - mean\<bar> \<le> 1 / (2 * 10 ^ 16) \<and>
              (\<forall>j. mean * 10 ^ 16 = of_int j \<longrightarrow> v_average_rating ?v = mean)" if "rs \<noteq> []"
  proof -
    from check have "\<forall>x \<in> set rs. 1 \<le> x \<and> x \<le> 5" by (auto simp: rs)
    from avg_ratings[OF that this] obtain k where k: "k = 16 \<or> k = 20"
      and av: "avg rs = Some (of_int \<lfloor>rat_of_int (sum_list rs) / rat_of_nat (length rs) * 10 ^ k
                                + 1 / 2\<rfloor> / 10 ^ k)"
      by blast
    have a: "v_average_rating ?v = of_int \<lfloor>mean * 10 ^ k + 1 / 2\<rfloor> / 10 ^ k"
      by (simp only: average av mean coalesce_Some)
    have "\<bar>v_average_rating ?v - mean\<bar> \<le> 1 / (2 * 10 ^ k)"
      unfolding a by (rule round_half_up)
    also have "\<dots> \<le> 1 / (2 * 10 ^ 16)" using k by auto
    finally have near: "\<bar>v_average_rating ?v - mean\<bar> \<le> 1 / (2 * 10 ^ 16)" .
    have exact: "v_average_rating ?v = mean" if "mean * 10 ^ 16 = of_int j" for j
      unfolding a using that by (rule round_exact) (use k in auto)
    from k a near exact show ?thesis by blast
  qed
  have run1: "fst (get_store (Numeric (s_id s)) db) = json 200 (StoreDetail ?v)"
    using no_faults[OF nf] found ident
    by (simp add: get_store_def try_catch_def andThen_def pool_query_def
          select_store_with_rating_def with_int_def reading_def ret_def)
  have "fst (get_store_authenticated (Numeric (s_id s)) userId db) =
          json 200 (StoreDetailFor ?v
            (first_rating (map r_rating (filter (rated userId (s_id s)) (ratings db)))))"
    using no_faults[OF nf] found ident
    by (simp add: get_store_authenticated_def try_catch_def andThen_def pool_query_def
          select_store_with_rating_def select_user_rating_def with_int_def reading_def ret_def)
  then have run2: "\<exists>mine. fst (get_store_authenticated (Numeric (s_id s)) userId db) =
                      json 200 (StoreDetailFor ?v mine)" ..
  have listed: "?v \<in> set (listed_stores (fst (list_stores collate ilike req db)))"
  proof -
    from s have "stores db \<noteq> []" by auto
    then have "1 \<le> int (length (stores db))" by (cases "stores db") simp_all
    with L(1) have L1: "1 \<le> L" by simp
    have q: "coalesce (q_sortBy req) ''name'' = ''name''"
      "coalesce (q_sortOrder req) ''asc'' = ''asc''"
      "coalesce (q_limit req) 20 = L" "coalesce (q_page req) 1 = 1"
      "search_pattern (q_search req) = None"
      by (simp_all add: req coalesce_def search_pattern_def)
    have all: "select_stores ilike None db = map (store_with_rating (ratings db)) (stores db)"
      by (simp add: select_stores_def store_matches_def)
    have a: "coalesce (q_sortBy req) ''name'' \<in> set [''name'', ''address'', ''created_at'']"
      and b: "toLowerCase (coalesce (q_sortOrder req) ''asc'') \<in> set [''asc'', ''desc'']"
      and c: "1 \<le> (1::int)" and d: "(1 - 1) * L \<le> max_safe"
      by (simp_all add: q toLowerCase_asc max_safe_def)
    note page = list_stores_page[OF nf a b q(3)[symmetric] L1 L(2) q(4)[symmetric] c d]
    have "listed_stores (fst (list_stores collate ilike req db)) =
            take (nat L) (order_stores collate ''name'' ''ASC'' (plan (tick (tick db)))
                 (map (store_with_rating (ratings db)) (stores db)))"
      by (simp add: page listed_stores_def json_def q toLowerCase_asc all)
    also have "\<dots> = order_stores collate ''name'' ''ASC'' (plan (tick (tick db)))
                 (map (store_with_rating (ratings db)) (stores db))"
      using L(1) by (simp add: order_stores_rows(2))
    finally have "listed_stores (fst (list_stores collate ilike req db)) =
                    order_stores collate ''name'' ''ASC'' (plan (tick (tick db)))
                      (map (store_with_rating (ratings db)) (stores db))" .
    moreover have "set (order_stores collate ''name'' ''ASC'' (plan (tick (tick db)))
                      (map (store_with_rating (ratings db)) (stores db))) =
                   set (map (store_with_rating (ratings db)) (stores db))"
      by (rule mset_eq_setD) (rule order_stores_rows(1))
    ultimately have "set (listed_stores (fst (list_stores collate ilike req db))) =
                    set (map (store_with_rating (ratings db)) (stores db))"
      by (simp only:)
    with s show ?thesis by simp
  qed
  have view: "store_ratings_summary db =
                map (\<lambda>s'. (s', \<lparr>average_rating = v_average_rating (store_with_rating (ratings db) s'),
                                 total_ratings = v_total_ratings (store_with_rating (ratings db) s')\<rparr>))
                  (stores db)"
    by (simp add: store_ratings_summary_def store_with_rating_def Let_def)
  have row: "(s, \<lparr>average_rating = v_average_rating ?v, total_ratings = v_total_ratings ?v\<rparr>)
               \<in> set (store_ratings_summary db)"
    unfolding view using s by auto
  have once: "st = \<lparr>average_rating = v_average_rating ?v, total_ratings = v_total_ratings ?v\<rparr>"
    if "(s, st) \<in> set (store_ratings_summary db)" for st
    using that unfolding view by auto
  show ?thesis
  proof (cases "rs = []")
    case True
    with True total none run1 run2 listed row once show ?thesis by blast
  next
    case False
    from some[OF False] obtain k where "(k = 16 \<or> k = 20) \<and>
              v_average_rating ?v = of_int \<lfloor>mean * 10 ^ k + 1 / 2\<rfloor> / 10 ^ k \<and>
              \<bar>v_average_rating ?v - mean\<bar> \<le> 1 / (2 * 10 ^ 16) \<and>
              (\<forall>j. mean * 10 ^ 16 = of_int j \<longrightarrow> v_average_rating ?v = mean)" by blast
    with False total run1 run2 listed row once show ?thesis by blast
  qed
qed

lemma numeric_div_10_3: "numeric_div 10 3 = 33333333333333333 / 10000000000000000"
  by code_simp

lemma demo_store_1:
  "filter (\<lambda>s. s_id s = 1) (stores rated_db) = [hd demo_stores]"
  "map r_rating (filter (\<lambda>r. r_store_id r = 1) (ratings rated_db)) = [5, 2, 3]"
  "s_id (hd demo_stores) = 1"
  "filter (\<lambda>r. r_store_id r = 1) (ratings rated_db) = take 3 demo_ratings"
  by (simp_all add: rated_db_def demo_db_def demo_stores_def demo_ratings_def)

lemma demo_ratings_3:
  "map r_rating (filter (\<lambda>r. r_store_id r = s_id (hd demo_stores)) (ratings rated_db)) = [5, 2, 3]"
  "filter (\<lambda>r. r_store_id r = s_id (hd demo_stores)) (ratings rated_db) = take 3 demo_ratings"
  by (simp_all add: rated_db_def demo_db_def demo_stores_def demo_ratings_def)

theorem store_aggregate_rating_witness:
  "\<exists>v. v_total_ratings v = 3 \<and> \<bar>v_average_rating v - 10 / 3\<bar> \<le> 1 / (2 * 10 ^ 16) \<and>
        fst (get_store (Numeric 1) rated_db) = json 200 (StoreDetail v) \<and>
        v \<in> set (listed_stores (fst (list_stores (\<lambda>s. s) (\<lambda>p t. False) demo_request rated_db)))"
proof -
  have nf: "faults rated_db = []" by (simp add: rated_db_def demo_db_def)
  have s: "hd demo_stores \<in> set (stores rated_db)"
    and key: "distinct (map s_id (stores rated_db))"
    and ident: "in_int4 (s_id (hd demo_stores))"
    by (simp_all add: rated_db_def demo_db_def demo_stores_def in_int4_def)
  have check: "\<forall>r \<in> set (ratings rated_db). 1 \<le> r_rating r \<and> r_rating r \<le> 5"
    by (simp add: rated_db_def demo_ratings_def)
  have rs: "[5, 2, 3] = map r_rating (filter (\<lambda>r. r_store_id r = s_id (hd demo_stores))
                                       (ratings rated_db))"
    by (rule demo_ratings_3(1)[symmetric])
  have mean: "10 / 3 = rat_of_int (sum_list [5, 2, 3]) / rat_of_nat (length [5, 2, 3::int])"
    by simp
  have req: "demo_request = \<lparr>q_search = None, q_role = None, q_sortBy = None, q_sortOrder = None,
                              q_page = None, q_limit = Some 2\<rparr>"
    by (simp add: demo_request_def)
  have L: "int (length (stores rated_db)) \<le> 2" "2 \<le> max_safe"
    by (simp_all add: rated_db_def demo_db_def demo_stores_def max_safe_def)
  note law = store_aggregate_rating[OF nf s key ident check rs mean req L,
      where collate = "\<lambda>s. s" and ilike = "\<lambda>p t. False" and userId = 3]
  from law show ?thesis
  proof (elim exE conjE)
    fix v k
    assume total: "v_total_ratings v = length [5, 2, 3::int]"
      and average: "[5, 2, 3::int] \<noteq> [] \<longrightarrow>
         (k = 16 \<or> k = 20) \<and>
         v_average_rating v = of_int \<lfloor>10 / 3 * 10 ^ k + 1 / 2\<rfloor> / 10 ^ k \<and>
         \<bar>v_average_rating v - 10 / 3\<bar> \<le> 1 / (2 * 10 ^ 16) \<and>
         (\<forall>j. 10 / 3 * 10 ^ 16 = of_int j \<longrightarrow> v_average_rating v = 10 / 3)"
      and detail: "fst (get_store (Numeric (s_id (hd demo_stores))) rated_db) =
                     json 200 (StoreDetail v)"
      and listed: "v \<in> set (listed_stores
                     (fst (list_stores (\<lambda>s. s) (\<lambda>p t. False) demo_request rated_db)))"
    from total have "v_total_ratings v = 3" by simp
    moreover from average have "\<bar>v_average_rating v - 10 / 3\<bar> \<le> 1 / (2 * 10 ^ 16)"
      by blast
    moreover from detail have "fst (get_store (Numeric 1) rated_db) = json 200 (StoreDetail v)"
      by (simp only: demo_store_1)
    ultimately show ?thesis using listed by blast
  qed
qed

text \<open>
  C2 as the claim words it fails at the store of the example: its ratings are 5, 2 and
  3, and the average reported is 3.3333333333333333, which is not their mean.
\<close>

theorem store_average_counterexample:
  "map r_rating (filter (\<lambda>r. r_store_id r = 1) (ratings rated_db)) = [5, 2, 3] \<and>
   fst (get_store (Numeric 1) rated_db) =
     json 200 (StoreDetail
       \<lparr>v_id = 1, v_name = ''City Market'', v_address = ''5 Market Road'', v_created_at = 400,
        v_average_rating = 33333333333333333 / 10000000000000000, v_total_ratings = 3\<rparr>) \<and>
   (33333333333333333 / 10000000000000000 :: rat) \<noteq> (5 + 2 + 3) / 3"
proof -
  have "lost rated_db = False" "in_int4 1"
    by (simp_all add: lost_def rated_db_def demo_db_def in_int4_def)
  then have "fst (get_store (Numeric 1) rated_db) =
     json 200 (StoreDetail
       \<lparr>v_id = 1, v_name = ''City Market'', v_address = ''5 Market Road'', v_created_at = 400,
        v_average_rating = 33333333333333333 / 10000000000000000, v_total_ratings = 3\<rparr>)"
    by (simp add: get_store_def try_catch_def andThen_def pool_query_def
          select_store_with_rating_def with_int_def reading_def ret_def demo_store_1
          store_with_rating_def Let_def non_null_left_join demo_ratings_def avg_def coalesce_def
          numeric_div_10_3 demo_stores_def numeral_3_eq_3)
  then show ?thesis by (simp add: demo_store_1(2))
qed

section \<open>Pagination\<close>





lemma plans_tables [simp]:
  "faults (db\<lparr>plans := ps\<rparr>) = faults db" "stores (db\<lparr>plans := ps\<rparr>) = stores db"
  "users (db\<lparr>plans := ps\<rparr>) = users db"
  "select_stores ilike pat (db\<lparr>plans := ps\<rparr>) = select_stores ilike pat db"
  "select_users ilike pat rl (db\<lparr>plans := ps\<rparr>) = select_users ilike pat rl db"
  by (simp_all add: select_stores_def select_users_def)








section \<open>Sort parameters outside the allow-list\<close>

text \<open>
  A \<^verbatim>\<open>sortBy\<close> or a \<^verbatim>\<open>sortOrder\<close> outside the allow-list makes the handler run the
  assignment to its \<^verbatim>\<open>const\<close> binding, which throws, and the catch branch answers 500
  without a query having been sent.
\<close>

lemma list_stores_rejects:
  assumes "coalesce (q_sortBy req) ''name'' \<notin> set [''name'', ''address'', ''created_at''] \<or>
           toLowerCase (coalesce (q_sortOrder req) ''asc'') \<notin> set [''asc'', ''desc'']"
  shows "list_stores collate ilike req db =
           (internal_error, db\<lparr>console := console db @ [''Stores fetch error:'']\<rparr>)"
  using assms
  by (auto simp: list_stores_def Let_def try_catch_def throw_def simp del: set_simps)

lemma list_users_rejects:
  assumes "coalesce (q_sortBy req) ''name'' \<notin>
             set [''name'', ''email'', ''address'', ''role'', ''created_at''] \<or>
           toLowerCase (coalesce (q_sortOrder req) ''asc'') \<notin> set [''asc'', ''desc'']"
  shows "list_users collate ilike req db =
           (internal_error, db\<lparr>console := console db @ [''Users fetch error:'']\<rparr>)"
  using assms
  by (auto simp: list_users_def Let_def try_catch_def throw_def simp del: set_simps)

text \<open>
  C4 at a failing input: the store list sorted by the unknown field \<^verbatim>\<open>price\<close>, and the
  user list in the unknown order \<^verbatim>\<open>up\<close>, are answered with 500, where the same requests
  without the parameter are answered with 200.
\<close>

theorem sort_fallback_failing_input:
  "status (fst (list_stores (\<lambda>s. s) (\<lambda>p t. False) (demo_request\<lparr>q_sortBy := Some ''price''\<rparr>) rated_db)) = 500 \<and>
   status (fst (list_stores (\<lambda>s. s) (\<lambda>p t. False) demo_request rated_db)) = 200 \<and>
   status (fst (list_users (\<lambda>s. s) (\<lambda>p t. False) (demo_request\<lparr>q_sortOrder := Some ''up''\<rparr>) rated_db)) = 500 \<and>
   status (fst (list_users (\<lambda>s. s) (\<lambda>p t. False) demo_request rated_db)) = 200"
proof -
  have nf: "faults rated_db = []" by (simp add: rated_db_def demo_db_def)
  have a: "list_stores (\<lambda>s. s) (\<lambda>p t. False) (demo_request\<lparr>q_sortBy := Some ''price''\<rparr>) rated_db =
        (internal_error, rated_db\<lparr>console := console rated_db @ [''Stores fetch error:'']\<rparr>)"
    by (rule list_stores_rejects) simp
  have "toLowerCase ''up'' = ''up''" by code_simp
  then have b: "list_users (\<lambda>s. s) (\<lambda>p t. False) (demo_request\<lparr>q_sortOrder := Some ''up''\<rparr>) rated_db =
        (internal_error, rated_db\<lparr>console := console rated_db @ [''Users fetch error:'']\<rparr>)"
    by (intro list_users_rejects) simp
  have q: "2 = coalesce (q_limit demo_request) 20" "1 \<le> (2::int)" "2 \<le> max_safe"
    "1 = coalesce (q_page demo_request) 1" "1 \<le> (1::int)" "(1 - 1) * 2 \<le> max_safe"
    by (simp_all add: demo_request_def coalesce_def max_safe_def)
  have c: "status (fst (list_stores (\<lambda>s. s) (\<lambda>p t. False) demo_request rated_db)) = 200"
    by (subst list_stores_page[OF nf _ _ q])
       (simp_all add: demo_request_def coalesce_def toLowerCase_asc json_def)
  have d: "status (fst (list_users (\<lambda>s. s) (\<lambda>p t. False) demo_request rated_db)) = 200"
    by (subst list_users_page[OF nf _ _ q])
       (simp_all add: demo_request_def coalesce_def toLowerCase_asc json_def)
  from a b c d show ?thesis by (simp add: internal_error_def json_def)
qed

section \<open>Database errors\<close>

lemma failures_tick [simp]: "failures (tick db) = failures db"
  by (simp add: tick_def)























section \<open>Rating validation\<close>

lemma failed_tables [simp]:
  "ratings (failed db) = ratings db" "users (failed db) = users db" "stores (failed db) = stores db"
  by (simp_all add: failed_def)

text \<open>No write of a rating outside 1..5 changes the table: the CHECK of the column refuses it.\<close>

lemma with_int_ratings:
  assumes "\<And>n. ratings (snd (stmt n db)) = ratings db"
  shows "ratings (snd (with_int p stmt db)) = ratings db"
  using assms by (cases p) (simp_all add: with_int_def refuse_def)

lemma with_js_int_ratings:
  assumes "\<And>n. ratings (snd (stmt n db)) = ratings db"
  shows "ratings (snd (with_js_int v stmt db)) = ratings db"
  using assms by (cases "js_int v") (simp_all add: with_js_int_def refuse_def)

lemma reads_keep:
  "ratings (snd (select_store_id p db)) = ratings db"
  "ratings (snd (select_user_store_rating u p db)) = ratings db"
  "ratings (snd (select_store_stats p db)) = ratings db"
  by (simp_all add: select_store_id_def select_user_store_rating_def select_store_stats_def
        with_int_ratings reading_def)

lemma update_refused:
  assumes unfit: "\<forall>v. js_int rating = Inr (Some v) \<longrightarrow> \<not> (1 \<le> v \<and> v \<le> 5)"
  shows "ratings (snd (update_user_store_rating rating c u p db)) = ratings db"
proof (cases "js_int rating")
  case (Inl e)
  then show ?thesis by (simp add: update_user_store_rating_def with_js_int_def refuse_def)
next
  case (Inr val)
  show ?thesis
  proof (cases val)
    case None
    with Inr show ?thesis
      by (simp add: update_user_store_rating_def with_js_int_def with_int_ratings refuse_def
            accept_def)
  next
    case (Some v)
    with unfit Inr have out: "\<not> (1 \<le> v \<and> v \<le> 5)" by simp
    have same: "map (\<lambda>r. if rated u sid r
                          then r\<lparr>r_rating := v, r_comment := c, r_updated_at := now db\<rparr>
                          else r) (ratings db) = ratings db"
      if "\<not> (\<exists>r \<in> set (ratings db). rated u sid r)" for sid
    proof -
      from that have "map (\<lambda>r. if rated u sid r
                          then r\<lparr>r_rating := v, r_comment := c, r_updated_at := now db\<rparr>
                          else r) (ratings db) = map (\<lambda>r. r) (ratings db)"
        by (intro map_cong) auto
      then show ?thesis by simp
    qed
    have "ratings (snd ((if (\<exists>r \<in> set (ratings db). rated u sid r) \<and> \<not> (1 \<le> v \<and> v \<le> 5)
           then refuse CheckViolation db
           else accept () (db\<lparr>ratings :=
                  map (\<lambda>r. if rated u sid r
                            then r\<lparr>r_rating := v, r_comment := c, r_updated_at := now db\<rparr>
                            else r) (ratings db)\<rparr>)))) = ratings db" for sid
      using out same[of sid] by (simp add: refuse_def accept_def)
    with Inr Some show ?thesis
      by (simp add: update_user_store_rating_def with_js_int_def with_int_ratings)
  qed
qed

lemma insert_refused:
  assumes unfit: "\<forall>v. js_int rating = Inr (Some v) \<longrightarrow> \<not> (1 \<le> v \<and> v \<le> 5)"
  shows "ratings (snd (insert_rating u p rating c db)) = ratings db"
proof -
  have "ratings (snd (with_js_int rating (\<lambda>val db.
       let db1 = db\<lparr>ratings_seq := ratings_seq db + 1\<rparr>
       in case val of
         None \<Rightarrow> refuse NotNullViolation db1
       | Some v \<Rightarrow>
           let row = \<lparr>r_id = ratings_seq db, r_user_id = u, r_store_id = sid, r_rating = v,
                      r_comment = c, r_created_at = now db, r_updated_at = now db\<rparr>
           in if \<not> (1 \<le> v \<and> v \<le> 5) then refuse CheckViolation db1
              else if (\<exists>r \<in> set (ratings db). r_id r = r_id row) then refuse UniqueViolation db1
              else if (\<exists>r \<in> set (ratings db). rated u sid r) then refuse UniqueViolation db1
              else if \<not> (\<exists>u' \<in> set (users db). u_id u' = u) then refuse ForeignKeyViolation db1
              else if \<not> (\<exists>s \<in> set (stores db). s_id s = sid) then refuse ForeignKeyViolation db1
              else accept () (db1\<lparr>ratings := ratings db @ [row]\<rparr>)) db)) = ratings db" for sid
  proof (cases "js_int rating")
    case (Inl e)
    then show ?thesis by (simp add: with_js_int_def refuse_def)
  next
    case (Inr val)
    show ?thesis
    proof (cases val)
      case None
      with Inr show ?thesis by (simp add: with_js_int_def refuse_def)
    next
      case (Some v)
      with unfit Inr have "\<not> (1 \<le> v \<and> v \<le> 5)" by simp
      with Inr Some show ?thesis by (simp add: with_js_int_def refuse_def Let_def)
    qed
  qed
  then show ?thesis by (simp add: insert_rating_def with_int_ratings)
qed

text \<open>A value the validator refuses is no integer from 1 to 5, unless it is a string.\<close>

lemma refused_unfit:
  assumes "\<not> validateRating rating" and "\<forall>n. rating \<noteq> JString (Numeric n)"
  shows "\<forall>v. js_int rating = Inr (Some v) \<longrightarrow> \<not> (1 \<le> v \<and> v \<le> 5)"
proof (cases rating)
  case (JNumber q)
  with assms(1) show ?thesis
    by (auto simp: validateRating_def js_int_def split: if_splits)
next
  case (JString t)
  with assms(2) show ?thesis by (cases t) (auto simp: js_int_def)
qed (simp_all add: js_int_def)

text \<open>Whatever a query does, it leaves the ratings as its statement does.\<close>

lemma pool_query_ratings:
  assumes "ratings (snd (stmt (tick db))) = ratings db"
  shows "ratings (snd (pool_query k vs stmt db)) = ratings db"
  using assms by (auto simp: pool_query_def split: prod.splits sum.splits)

lemma andThen_ratings:
  assumes "ratings (snd (m db)) = ratings db"
      and "\<And>x d. ratings (snd (f x d)) = ratings d"
  shows "ratings (snd (andThen m f db)) = ratings db"
proof (cases "m db")
  case (Pair r d)
  with assms(1) have "ratings d = ratings db" by simp
  with Pair assms(2) show ?thesis by (cases r) (simp_all add: andThen_def)
qed

lemma try_catch_ratings: "ratings (snd (try_catch l block db)) = ratings (snd (block db))"
  by (auto simp: try_catch_def split: prod.splits sum.splits)

lemma ret_ratings: "ratings (snd (ret x db)) = ratings db"
  by (simp add: ret_def)

text \<open>The handler alone: a rating outside 1..5 is never written.\<close>

lemma post_rating_refuses:
  assumes unfit: "\<forall>v. js_int rating = Inr (Some v) \<longrightarrow> \<not> (1 \<le> v \<and> v \<le> 5)"
  shows "ratings (snd (post_rating storeId rating comment userId db)) = ratings db"
proof -
  have q: "ratings (snd (pool_query k vs stmt d)) = ratings d"
    if "\<And>d'. ratings (snd (stmt d')) = ratings d'" for k vs d and stmt :: "'a statement"
    by (rule pool_query_ratings) (simp add: that)
  show ?thesis
    unfolding post_rating_def try_catch_ratings
    by (intro andThen_ratings q reads_keep) 
       (auto intro!: andThen_ratings q reads_keep ret_ratings update_refused[OF unfit]
          insert_refused[OF unfit])
qed

text \<open>
  C6. A submission whose rating is not an integer from 1 to 5 is answered by the route
  with 400 and leaves the database exactly as it was. The handler behind the validator,
  taken alone, leaves the ratings table unchanged on such a rating too, provided the
  rating is not a string that spells a number (which PostgreSQL would read as one).
\<close>

theorem invalid_rating_rejected:
  assumes "\<not> validateRating rating"
  shows "post_rating_route storeId rating comment userId db =
           (json 400 (ValidationErrors [''Rating must be an integer between 1 and 5'']), db) \<and>
         status (fst (post_rating_route storeId rating comment userId db)) = 400 \<and>
         ((\<forall>n. rating \<noteq> JString (Numeric n)) \<longrightarrow>
            ratings (snd (post_rating storeId rating comment userId db)) = ratings db)"
  using assms post_rating_refuses[OF refused_unfit[OF assms]]
  by (simp add: post_rating_route_def json_def)

theorem invalid_rating_rejected_witness:
  "post_rating_route (Numeric 1) (JNumber 6) None 3 rated_db =
     (json 400 (ValidationErrors [''Rating must be an integer between 1 and 5'']), rated_db) \<and>
   status (fst (post_rating_route (Numeric 1) (JNumber (9 / 2)) None 3 rated_db)) = 400 \<and>
   ratings (snd (post_rating (Numeric 1) (JNumber 0) None 3 rated_db)) = ratings rated_db"
proof -
  have a: "\<not> validateRating (JNumber 6)" and c: "\<not> validateRating (JNumber 0)"
    by (simp_all add: validateRating_def)
  have b: "\<not> validateRating (JNumber (9 / 2))"
    by code_simp
  have d: "\<forall>n. JNumber 0 \<noteq> JString (Numeric n)" by simp
  from invalid_rating_rejected[OF a] invalid_rating_rejected[OF b] invalid_rating_rejected[OF c] d
  show ?thesis by blast
qed

section \<open>Registration and login\<close>





section \<open>Deleting a rating\<close>

lemma delete_rating_lost:
  assumes "lost db"
  shows "delete_rating ratingId userId db =
           (internal_error, (failed (tick db))\<lparr>console := console db @ [''Rating deletion error:'']\<rparr>)"
  using assms
  by (simp add: delete_rating_def try_catch_def andThen_def pool_query_def failed_def tick_def)

lemma delete_rating_malformed:
  assumes "\<not> lost db"
  shows "delete_rating (NonNumeric s) userId db =
           (internal_error, (failed (tick db))\<lparr>console := console db @ [''Rating deletion error:'']\<rparr>)"
  using assms
  by (simp add: delete_rating_def try_catch_def andThen_def pool_query_def failed_def tick_def
        select_owned_rating_def with_int_def refuse_def)

lemma delete_rating_out_of_range:
  assumes "\<not> lost db" and "\<not> in_int4 rid"
  shows "delete_rating (Numeric rid) userId db =
           (internal_error, (failed (tick db))\<lparr>console := console db @ [''Rating deletion error:'']\<rparr>)"
  using assms
  by (simp add: delete_rating_def try_catch_def andThen_def pool_query_def failed_def tick_def
        select_owned_rating_def with_int_def refuse_def)

lemma delete_rating_unowned:
  assumes "\<not> lost db" and "in_int4 rid"
      and "\<not> (\<exists>r \<in> set (ratings db). r_id r = rid \<and> r_user_id r = userId)"
  shows "delete_rating (Numeric rid) userId db =
           (json 404 (Message ''Rating not found or unauthorized''), tick db)"
proof -
  from assms(3) have "filter (\<lambda>r. r_id r = rid \<and> r_user_id r = userId) (ratings (tick db)) = []"
    by (simp add: filter_empty_conv)
  with assms(1,2) show ?thesis
    by (simp add: delete_rating_def try_catch_def andThen_def pool_query_def
          select_owned_rating_def with_int_def reading_def ret_def)
qed

text \<open>
  C8, as the code has it. A delete request for a rating id under which the requesting
  user owns no rating (no such rating, or another user's): the users, stores and
  ratings tables are left as they were, whatever happens to the query. When the id is
  an integer of 32 bits and the query is not lost, the answer is 404 'Rating not found
  or unauthorized'; when the id is no integer, or one outside the 32 bits of the id
  column, the answer is the generic 500.
\<close>

theorem delete_unowned_rating:
  assumes "\<forall>rid. ratingId = Numeric rid \<longrightarrow>
             \<not> (\<exists>r \<in> set (ratings db). r_id r = rid \<and> r_user_id r = userId)"
  shows "ratings (snd (delete_rating ratingId userId db)) = ratings db \<and>
         users (snd (delete_rating ratingId userId db)) = users db \<and>
         stores (snd (delete_rating ratingId userId db)) = stores db \<and>
         (status (fst (delete_rating ratingId userId db)) = 404 \<or>
          status (fst (delete_rating ratingId userId db)) = 500) \<and>
         ((\<exists>rid. ratingId = Numeric rid \<and> in_int4 rid) \<and> \<not> lost db \<longrightarrow>
            delete_rating ratingId userId db =
              (json 404 (Message ''Rating not found or unauthorized''), tick db)) \<and>
         ((\<forall>rid. ratingId = Numeric rid \<longrightarrow> \<not> in_int4 rid) \<longrightarrow>
            fst (delete_rating ratingId userId db) = internal_error)"
proof (cases "lost db")
  case True
  show ?thesis
    unfolding delete_rating_lost[OF True]
    using True by (simp add: internal_error_def json_def)
next
  case False
  show ?thesis
  proof (cases ratingId)
    case (NonNumeric s)
    show ?thesis
      unfolding NonNumeric delete_rating_malformed[OF False]
      by (simp add: internal_error_def json_def)
  next
    case (Numeric rid)
    with assms have none: "\<not> (\<exists>r \<in> set (ratings db). r_id r = rid \<and> r_user_id r = userId)"
      by simp
    show ?thesis
    proof (cases "in_int4 rid")
      case True
      from delete_rating_unowned[OF False True none] True
      show ?thesis
        unfolding Numeric by (simp add: json_def)
    next
      case out: False
      show ?thesis
        unfolding Numeric delete_rating_out_of_range[OF False out]
        using out by (simp add: internal_error_def json_def)
    qed
  qed
qed

theorem delete_unowned_rating_witness:
  "ratings (snd (delete_rating (Numeric 2) 3 rated_db)) = ratings rated_db \<and>
   delete_rating (Numeric 2) 3 rated_db =
     (json 404 (Message ''Rating not found or unauthorized''), tick rated_db) \<and>
   ratings (snd (delete_rating (Numeric 9) 3 broken_db)) = ratings broken_db"
proof -
  have a: "\<forall>rid. Numeric 2 = Numeric rid \<longrightarrow>
             \<not> (\<exists>r \<in> set (ratings rated_db). r_id r = rid \<and> r_user_id r = 3)"
    by (simp add: rated_db_def demo_ratings_def)
  have b: "\<forall>rid. Numeric 9 = Numeric rid \<longrightarrow>
             \<not> (\<exists>r \<in> set (ratings broken_db). r_id r = rid \<and> r_user_id r = 3)"
    by (simp add: broken_db_def rated_db_def demo_ratings_def)
  have c: "(\<exists>rid. Numeric 2 = Numeric rid \<and> in_int4 rid) \<and> \<not> lost rated_db"
    by (simp add: lost_def rated_db_def demo_db_def in_int4_def)
  from delete_unowned_rating[OF a] c delete_unowned_rating[OF b] show ?thesis by blast
qed

text \<open>
  C8 as the claim words it fails for an id that is not a number, and for one beyond 32
  bits: no rating has it, and the answer is the generic 500, not the 404 (the ratings
  are untouched).
\<close>

theorem delete_malformed_id_counterexample:
  "status (fst (delete_rating (NonNumeric ''abc'') 3 rated_db)) = 500 \<and>
   fst (delete_rating (NonNumeric ''abc'') 3 rated_db) = internal_error \<and>
   ratings (snd (delete_rating (NonNumeric ''abc'') 3 rated_db)) = ratings rated_db \<and>
   status (fst (delete_rating (Numeric 2147483648) 3 rated_db)) = 500 \<and>
   ratings (snd (delete_rating (Numeric 2147483648) 3 rated_db)) = ratings rated_db"
proof -
  have ok: "\<not> lost rated_db" by (simp add: lost_def rated_db_def demo_db_def)
  have out: "\<not> in_int4 2147483648" by (simp add: in_int4_def)
  from delete_rating_malformed[OF ok] delete_rating_out_of_range[OF ok out] show ?thesis
    by (simp add: internal_error_def json_def)
qed

section \<open>The insights handler\<close>

lemma distribution_query_fails:
  "pool_query 1 [] stmt db = (Inl (if lost db then ConnectionFailure else ParameterMismatch),
                              failed (tick db))"
  by (simp add: pool_query_def)

text \<open>
  C9. Whoever the user and whatever the database, \<^verbatim>\<open>GET /api/ratings/user/insights\<close>
  answers with the internal-error response, through its catch branch (which prints its
  message): when the first three queries succeed, the fourth is sent without values
  for a text that refers to \<^verbatim>\<open>$1\<close> and fails. The insights payload is never returned.
\<close>

theorem user_insights_always_fails:
  "fst (user_insights userId db) = internal_error \<and>
   status (fst (user_insights userId db)) = 500 \<and>
   console (snd (user_insights userId db)) = console db @ [''User insights error:''] \<and>
   failures db < failures (snd (user_insights userId db)) \<and>
   (\<forall>i t f d. payload (fst (user_insights userId db)) \<noteq> UserInsights i t f d)"
proof -
  have run: "fst (user_insights userId db) = internal_error \<and>
             console (snd (user_insights userId db)) = console db @ [''User insights error:''] \<and>
             failures db < failures (snd (user_insights userId db))"
    by (simp add: user_insights_def try_catch_def andThen_def pool_query_def failed_def tick_def
          select_rating_summary_def select_trends_def select_favorites_def reading_def)
  then show ?thesis by (simp add: internal_error_def json_def)
qed

theorem user_insights_always_fails_witness:
  "fst (user_insights 3 rated_db) = internal_error \<and>
   console (snd (user_insights 3 rated_db)) = [''User insights error:'']"
  using user_insights_always_fails[of 3 rated_db]
  by (simp add: rated_db_def demo_db_def)

section \<open>Route shadowing\<close>

lemma match_one_param:
  "match_path [Par n] path = (case path of [x] \<Rightarrow> if x = [] then None else Some [(n, x)] | _ \<Rightarrow> None)"
proof (cases path)
  case Nil
  then show ?thesis by simp
next
  case (Cons x xs)
  then show ?thesis by (cases xs) simp_all
qed

lemma dispatch_delete:
  "dispatch ratings_routes DELETE path =
     (case match_path [Par ''ratingId''] path of
        Some bs \<Rightarrow> Some (DeleteRatingById, bs)
      | None \<Rightarrow> None)"
  by (simp add: ratings_routes_def calls_next_def match_one_param
        split: list.splits option.splits)

text \<open>
  C10. Two routes are registered for \<^verbatim>\<open>DELETE /:param\<close>. A delete request for one
  (non-empty) segment \<open>x\<close> goes to the first, which reads \<open>x\<close> as the rating id; and no
  request of any method and path is ever handed to the second, the one that reads the
  parameter as a store id.
\<close>

theorem delete_route_shadowed:
  "(DELETE, [Par ''ratingId''], DeleteRatingById) \<in> set ratings_routes \<and>
   (DELETE, [Par ''storeId''], DeleteRatingByStore) \<in> set ratings_routes \<and>
   (x \<noteq> [] \<longrightarrow>
      dispatch ratings_routes DELETE [x] = Some (DeleteRatingById, [(''ratingId'', x)])) \<and>
   (\<forall>m path bs. dispatch ratings_routes m path \<noteq> Some (DeleteRatingByStore, bs))"
proof (intro conjI impI allI)
  show "(DELETE, [Par ''ratingId''], DeleteRatingById) \<in> set ratings_routes"
    and "(DELETE, [Par ''storeId''], DeleteRatingByStore) \<in> set ratings_routes"
    by (simp_all add: ratings_routes_def)
next
  assume "x \<noteq> []"
  then show "dispatch ratings_routes DELETE [x] = Some (DeleteRatingById, [(''ratingId'', x)])"
    by (simp add: dispatch_delete)
next
  fix m path bs
  show "dispatch ratings_routes m path \<noteq> Some (DeleteRatingByStore, bs)"
  proof (cases m)
    case DELETE
    then show ?thesis by (simp add: dispatch_delete split: option.splits)
  next
    case GET
    then show ?thesis
      by (simp add: ratings_routes_def calls_next_def split: option.splits)
  next
    case POST
    then show ?thesis
      by (simp add: ratings_routes_def calls_next_def split: option.splits)
  next
    case PUT
    then show ?thesis
      by (simp add: ratings_routes_def calls_next_def split: option.splits)
  qed
qed

theorem delete_route_shadowed_witness:
  "dispatch ratings_routes DELETE [''1''] = Some (DeleteRatingById, [(''ratingId'', ''1'')])"
  using delete_route_shadowed[of "''1''"] by simp

end
